theory Spec2Isabelle
  imports Main "HOL-Library.Word"
begin

section \<open>Certificate authorities: data model\<close>

text \<open>
  The Go package \<open>services\<close> (certificate authorities and cluster names). Byte slices
  and strings are character lists; \<open>int64\<close> resource IDs are 64-bit words; a
  \<open>time.Time\<close> is the instant it denotes, counted from Go's zero time, and a
  \<open>time.Duration\<close> is its number of nanoseconds. Where the code reads a slice through
  its length and its elements, the slice is the list of its elements, and
  \<open>len(x) == 0\<close> is \<open>x = []\<close>; where it can tell a nil slice from an empty one (the
  comparison of two CAs), the slice is a value of the type \<open>slice\<close> below.
\<close>

type_synonym bytes = string
type_synonym Time = int
type_synonym Duration = int

text \<open>
  \<open>trace.BadParameter\<close> builds a bad-parameter error from a message; an error that
  comes out of a library outside this package (key parsing, JSON) is \<open>LibError\<close>;
  dereferencing a pointer to nothing panics. \<open>trace.Wrap\<close> keeps the error it wraps.
\<close>

datatype error = BadParameter string | LibError string | Panic string

fun Error :: "error \<Rightarrow> string" where
  "Error (BadParameter m) = m"
| "Error (LibError m) = m"
| "Error (Panic m) = m"

definition Wrap :: "error \<Rightarrow> error" where
  "Wrap e = e"

subsection \<open>User certificate parameters\<close>

record UserCertParams =
  PrivateCASigningKey :: bytes
  CASigningAlg :: string
  PublicUserKey :: bytes
  TTL :: Duration
  Username :: string
  Impersonator :: string
  AllowedLogins :: "string list"
  PermitX11Forwarding :: bool
  PermitAgentForwarding :: bool
  PermitPortForwarding :: bool
  UserRoles :: "string list"
  CertificateFormat :: string
  RouteToCluster :: string
  Traits :: "(string \<times> string list) list"
  ActiveRequests :: "string list"
  MFAVerified :: string
  ClientIP :: string

text \<open>
  \<open>(c *UserCertParams) CheckAndSetDefaults\<close>. The receiver is a pointer, so the
  function returns the error (\<open>None\<close> is \<open>nil\<close>) together with the parameters as the
  call leaves them; the TTL is raised before the logins are looked at, so it is raised
  also when the call fails there. \<open>defaults.MinCertDuration\<close> is declared outside this
  file and is the first argument.
\<close>

definition UserCertParams_CheckAndSetDefaults ::
  "Duration \<Rightarrow> UserCertParams \<Rightarrow> error option \<times> UserCertParams" where
  "UserCertParams_CheckAndSetDefaults MinCertDuration c =
     (if PrivateCASigningKey c = [] \<or> CASigningAlg c = [] then
        (Some (BadParameter ''PrivateCASigningKey and CASigningAlg are required''), c)
      else
        let c1 = (if TTL c < MinCertDuration then c\<lparr>TTL := MinCertDuration\<rparr> else c)
        in if AllowedLogins c1 = [] then
             (Some (BadParameter ''AllowedLogins are required''), c1)
           else (None, c1))"

subsection \<open>Certificate authority resources\<close>

text \<open>
  Modelled from the spec: the resource structs of \<open>api/types\<close> are declared outside
  this package. The spec gives a certificate authority a type out of HostCA, UserCA and
  JWTSigner (in Go the type is a string, so any other value can occur and is
  \<open>OtherCAType\<close>), a cluster name, SSH signing and checking keys, TLS key pairs, JWT key
  pairs, a role list, a role map, a signing algorithm, and a header of kind, version
  and metadata (name, expiry, resource ID).
\<close>

datatype CertAuthType = HostCA | UserCA | JWTSigner | OtherCAType string

record TLSKeyPair =
  Cert :: bytes
  Key :: bytes

record JWTKeyPair =
  PublicKey :: bytes
  PrivateKey :: bytes

record RoleMapping =
  Remote :: string
  Local :: "string list"

record Metadata =
  Name :: string
  Expires :: "Time option"
  ID :: "64 word"

record CertAuthoritySpecV2 =
  Type :: CertAuthType
  ClusterName :: string
  CheckingKeys :: "bytes list"
  SigningKeys :: "bytes list"
  Roles :: "string list"
  RoleMap :: "RoleMapping list"
  TLSKeyPairs :: "TLSKeyPair list"
  SigningAlg :: int
  JWTKeyPairs :: "JWTKeyPair list"

record CertAuthorityV2 =
  Kind :: string
  SubKind :: string
  Version :: string
  Metadata :: Metadata
  Spec :: CertAuthoritySpecV2

record ClusterNameSpecV2 =
  cn_ClusterName :: string

record ClusterNameV2 =
  cn_Kind :: string
  cn_SubKind :: string
  cn_Version :: string
  cn_Metadata :: Metadata
  cn_Spec :: ClusterNameSpecV2

record ResourceHeader =
  rh_Kind :: string
  rh_SubKind :: string
  rh_Version :: string
  rh_Metadata :: Metadata

text \<open>
  Modelled from the spec: \<open>types.V2\<close> is declared outside this package; the spec
  names the one accepted version "2".
\<close>

definition V2 :: string where
  "V2 = ''2''"

text \<open>The accessors of \<open>types.CertAuthority\<close> that this package calls.\<close>

definition GetType :: "CertAuthorityV2 \<Rightarrow> CertAuthType" where
  "GetType ca = Type (Spec ca)"

definition GetClusterName :: "CertAuthorityV2 \<Rightarrow> string" where
  "GetClusterName ca = ClusterName (Spec ca)"

definition GetCheckingKeys :: "CertAuthorityV2 \<Rightarrow> bytes list" where
  "GetCheckingKeys ca = CheckingKeys (Spec ca)"

definition GetTLSKeyPairs :: "CertAuthorityV2 \<Rightarrow> TLSKeyPair list" where
  "GetTLSKeyPairs ca = TLSKeyPairs (Spec ca)"

definition GetJWTKeyPairs :: "CertAuthorityV2 \<Rightarrow> JWTKeyPair list" where
  "GetJWTKeyPairs ca = JWTKeyPairs (Spec ca)"

definition GetRoles :: "CertAuthorityV2 \<Rightarrow> string list" where
  "GetRoles ca = Roles (Spec ca)"

definition GetRoleMap :: "CertAuthorityV2 \<Rightarrow> RoleMapping list" where
  "GetRoleMap ca = RoleMap (Spec ca)"

definition GetVersion :: "CertAuthorityV2 \<Rightarrow> string" where
  "GetVersion ca = Version ca"

definition GetResourceID :: "CertAuthorityV2 \<Rightarrow> 64 word" where
  "GetResourceID ca = ID (Metadata ca)"

definition SetResourceID :: "CertAuthorityV2 \<Rightarrow> 64 word \<Rightarrow> CertAuthorityV2" where
  "SetResourceID ca i = ca\<lparr>Metadata := (Metadata ca)\<lparr>ID := i\<rparr>\<rparr>"

definition cn_SetResourceID :: "ClusterNameV2 \<Rightarrow> 64 word \<Rightarrow> ClusterNameV2" where
  "cn_SetResourceID c i = c\<lparr>cn_Metadata := (cn_Metadata c)\<lparr>ID := i\<rparr>\<rparr>"

definition cn_SetExpiry :: "ClusterNameV2 \<Rightarrow> Time \<Rightarrow> ClusterNameV2" where
  "cn_SetExpiry c t = c\<lparr>cn_Metadata := (cn_Metadata c)\<lparr>Expires := Some t\<rparr>\<rparr>"

definition IsZero :: "Time \<Rightarrow> bool" where
  "IsZero t = (t = 0)"

subsection \<open>What the package calls and does not define\<close>

text \<open>
  \<open>jwt.Config\<close>, as the two call sites fill it: a field that the call site leaves out
  is \<open>None\<close> (a nil clock, a nil key).
\<close>

record ('clock, 'priv, 'pub) Config =
  Clock :: "'clock option"
  Algorithm :: string
  jwt_ClusterName :: string
  jwt_PrivateKey :: "'priv option"
  jwt_PublicKey :: "'pub option"

text \<open>
  The functions of other packages that validation calls are parameters: the CA's own
  \<open>CheckAndSetDefaults\<close> (it may fill in fields, so it returns the CA),
  \<open>sshutils.GetCheckers\<close> and \<open>sshutils.GetSigners\<close> and \<open>parseRoleMap\<close> (the callers
  drop what they return and keep the error, so only the error is modelled, \<open>None\<close>
  for \<open>nil\<close>), the key parsers of \<open>utils\<close>, \<open>jwt.New\<close>, the constant
  \<open>defaults.ApplicationTokenAlgorithm\<close>, and the cluster name's
  \<open>CheckAndSetDefaults\<close>.
\<close>

record ('priv, 'pub, 'key, 'clock) deps =
  CheckAndSetDefaults :: "CertAuthorityV2 \<Rightarrow> error + CertAuthorityV2"
  GetCheckers :: "CertAuthorityV2 \<Rightarrow> error option"
  GetSigners :: "CertAuthorityV2 \<Rightarrow> error option"
  parseRoleMap :: "RoleMapping list \<Rightarrow> error option"
  ParsePrivateKey :: "bytes \<Rightarrow> error + 'priv"
  ParsePublicKey :: "bytes \<Rightarrow> error + 'pub"
  jwt_New :: "('clock, 'priv, 'pub) Config \<Rightarrow> error + 'key"
  ApplicationTokenAlgorithm :: string
  cn_CheckAndSetDefaults :: "ClusterNameV2 \<Rightarrow> error + ClusterNameV2"

text \<open>
  \<open>utils.FastUnmarshal\<close> and \<open>utils.FastMarshal\<close> (JSON), one function for each Go
  type that the package decodes into or encodes.
\<close>

record codec =
  FastUnmarshal_ResourceHeader :: "bytes \<Rightarrow> error + ResourceHeader"
  FastUnmarshal_CertAuthorityV2 :: "bytes \<Rightarrow> error + CertAuthorityV2"
  FastMarshal_CertAuthorityV2 :: "CertAuthorityV2 \<Rightarrow> error + bytes"
  FastUnmarshal_ClusterNameV2 :: "bytes \<Rightarrow> error + ClusterNameV2"
  FastMarshal_ClusterNameV2 :: "ClusterNameV2 \<Rightarrow> error + bytes"

text \<open>
  Modelled from the spec: \<open>MarshalConfig\<close>, \<open>MarshalOption\<close> and \<open>CollectOptions\<close>
  are declared outside the two files. The spec recognises three options: a resource ID
  and an expiry to stamp onto the decoded object, and a flag to keep the resource ID
  on marshal. An option is a function that updates the configuration or fails;
  \<open>CollectOptions\<close> applies the options in order to the zero configuration.
\<close>

record MarshalConfig =
  cfg_ID :: "64 word"
  cfg_Expires :: Time
  cfg_PreserveResourceID :: bool

type_synonym MarshalOption = "MarshalConfig \<Rightarrow> error + MarshalConfig"

fun applyOptions :: "MarshalConfig \<Rightarrow> MarshalOption list \<Rightarrow> error + MarshalConfig" where
  "applyOptions cfg [] = Inr cfg"
| "applyOptions cfg (opt # opts) =
     (case opt cfg of Inl e \<Rightarrow> Inl (Wrap e) | Inr cfg' \<Rightarrow> applyOptions cfg' opts)"

definition CollectOptions :: "MarshalOption list \<Rightarrow> error + MarshalConfig" where
  "CollectOptions opts =
     applyOptions \<lparr>cfg_ID = 0, cfg_Expires = 0, cfg_PreserveResourceID = False\<rparr> opts"

definition WithResourceID :: "64 word \<Rightarrow> MarshalOption" where
  "WithResourceID i = (\<lambda>cfg. Inr (cfg\<lparr>cfg_ID := i\<rparr>))"

definition WithExpires :: "Time \<Rightarrow> MarshalOption" where
  "WithExpires t = (\<lambda>cfg. Inr (cfg\<lparr>cfg_Expires := t\<rparr>))"

definition PreserveResourceID :: MarshalOption where
  "PreserveResourceID = (\<lambda>cfg. Inr (cfg\<lparr>cfg_PreserveResourceID := True\<rparr>))"

section \<open>The package\<close>

subsection \<open>Equivalence\<close>

text \<open>
  The other functions of the package read a slice through its length and its elements,
  and for them a slice is the list of its elements. \<open>cmp.Equal\<close> reads more: it
  reports a nil slice and an empty slice that is not nil as different. For
  \<open>CertAuthoritiesEquivalent\<close> the structs are therefore taken with every slice as
  the Go value it is, nil or a list of elements, byte slices included; \<open>of_go\<close>
  forgets the difference and gives the struct that the other functions read.
\<close>

datatype 'a slice = NilSlice | Slice "'a list"

fun elems :: "'a slice \<Rightarrow> 'a list" where
  "elems NilSlice = []"
| "elems (Slice xs) = xs"

record go_TLSKeyPair =
  go_Cert :: "char slice"
  go_Key :: "char slice"

record go_JWTKeyPair =
  go_PublicKey :: "char slice"
  go_PrivateKey :: "char slice"

record go_RoleMapping =
  go_Remote :: string
  go_Local :: "string slice"

record go_CertAuthoritySpecV2 =
  go_Type :: CertAuthType
  go_ClusterName :: string
  go_CheckingKeys :: "char slice slice"
  go_SigningKeys :: "char slice slice"
  go_Roles :: "string slice"
  go_RoleMap :: "go_RoleMapping slice"
  go_TLSKeyPairs :: "go_TLSKeyPair slice"
  go_SigningAlg :: int
  go_JWTKeyPairs :: "go_JWTKeyPair slice"

record go_CertAuthorityV2 =
  go_Kind :: string
  go_SubKind :: string
  go_Version :: string
  go_Metadata :: Metadata
  go_Spec :: go_CertAuthoritySpecV2

definition of_go_TLSKeyPair :: "go_TLSKeyPair \<Rightarrow> TLSKeyPair" where
  "of_go_TLSKeyPair kp = \<lparr>Cert = elems (go_Cert kp), Key = elems (go_Key kp)\<rparr>"

definition of_go_JWTKeyPair :: "go_JWTKeyPair \<Rightarrow> JWTKeyPair" where
  "of_go_JWTKeyPair kp =
     \<lparr>PublicKey = elems (go_PublicKey kp), PrivateKey = elems (go_PrivateKey kp)\<rparr>"

definition of_go_RoleMapping :: "go_RoleMapping \<Rightarrow> RoleMapping" where
  "of_go_RoleMapping r = \<lparr>Remote = go_Remote r, Local = elems (go_Local r)\<rparr>"

definition of_go :: "go_CertAuthorityV2 \<Rightarrow> CertAuthorityV2" where
  "of_go ca =
     \<lparr>Kind = go_Kind ca, SubKind = go_SubKind ca, Version = go_Version ca,
      Metadata = go_Metadata ca,
      Spec = \<lparr>Type = go_Type (go_Spec ca), ClusterName = go_ClusterName (go_Spec ca),
              CheckingKeys = map elems (elems (go_CheckingKeys (go_Spec ca))),
              SigningKeys = map elems (elems (go_SigningKeys (go_Spec ca))),
              Roles = elems (go_Roles (go_Spec ca)),
              RoleMap = map of_go_RoleMapping (elems (go_RoleMap (go_Spec ca))),
              TLSKeyPairs = map of_go_TLSKeyPair (elems (go_TLSKeyPairs (go_Spec ca))),
              SigningAlg = go_SigningAlg (go_Spec ca),
              JWTKeyPairs = map of_go_JWTKeyPair (elems (go_JWTKeyPairs (go_Spec ca)))\<rparr>\<rparr>"

definition go_SetResourceID :: "go_CertAuthorityV2 \<Rightarrow> 64 word \<Rightarrow> go_CertAuthorityV2" where
  "go_SetResourceID ca i = ca\<lparr>go_Metadata := (go_Metadata ca)\<lparr>ID := i\<rparr>\<rparr>"

text \<open>
  \<open>CertAuthoritiesEquivalent\<close> is \<open>cmp.Equal\<close> with the option
  \<open>cmpopts.IgnoreFields(types.Metadata{}, "ID")\<close>. \<open>cmp.Equal\<close> walks the two
  structs field by field; two slices are equal when both are nil, or neither is and
  they have the same length and equal elements at every index; the option makes it
  skip the field \<open>ID\<close> wherever it meets a \<open>Metadata\<close>.
\<close>

definition cmp_Equal_Metadata :: "Metadata \<Rightarrow> Metadata \<Rightarrow> bool" where
  "cmp_Equal_Metadata l r = (Name l = Name r \<and> Expires l = Expires r)"

fun cmp_Equal_slice :: "('a \<Rightarrow> 'a \<Rightarrow> bool) \<Rightarrow> 'a slice \<Rightarrow> 'a slice \<Rightarrow> bool" where
  "cmp_Equal_slice eq NilSlice NilSlice = True"
| "cmp_Equal_slice eq (Slice xs) (Slice ys) = list_all2 eq xs ys"
| "cmp_Equal_slice eq NilSlice (Slice ys) = False"
| "cmp_Equal_slice eq (Slice xs) NilSlice = False"

definition cmp_Equal_bytes :: "char slice \<Rightarrow> char slice \<Rightarrow> bool" where
  "cmp_Equal_bytes l r = cmp_Equal_slice (=) l r"

definition cmp_Equal_TLSKeyPair :: "go_TLSKeyPair \<Rightarrow> go_TLSKeyPair \<Rightarrow> bool" where
  "cmp_Equal_TLSKeyPair l r =
     (cmp_Equal_bytes (go_Cert l) (go_Cert r) \<and> cmp_Equal_bytes (go_Key l) (go_Key r))"

definition cmp_Equal_JWTKeyPair :: "go_JWTKeyPair \<Rightarrow> go_JWTKeyPair \<Rightarrow> bool" where
  "cmp_Equal_JWTKeyPair l r =
     (cmp_Equal_bytes (go_PublicKey l) (go_PublicKey r) \<and>
      cmp_Equal_bytes (go_PrivateKey l) (go_PrivateKey r))"

definition cmp_Equal_RoleMapping :: "go_RoleMapping \<Rightarrow> go_RoleMapping \<Rightarrow> bool" where
  "cmp_Equal_RoleMapping l r =
     (go_Remote l = go_Remote r \<and> cmp_Equal_slice (=) (go_Local l) (go_Local r))"

definition cmp_Equal_Spec :: "go_CertAuthoritySpecV2 \<Rightarrow> go_CertAuthoritySpecV2 \<Rightarrow> bool" where
  "cmp_Equal_Spec l r =
     (go_Type l = go_Type r \<and> go_ClusterName l = go_ClusterName r \<and>
      cmp_Equal_slice cmp_Equal_bytes (go_CheckingKeys l) (go_CheckingKeys r) \<and>
      cmp_Equal_slice cmp_Equal_bytes (go_SigningKeys l) (go_SigningKeys r) \<and>
      cmp_Equal_slice (=) (go_Roles l) (go_Roles r) \<and>
      cmp_Equal_slice cmp_Equal_RoleMapping (go_RoleMap l) (go_RoleMap r) \<and>
      cmp_Equal_slice cmp_Equal_TLSKeyPair (go_TLSKeyPairs l) (go_TLSKeyPairs r) \<and>
      go_SigningAlg l = go_SigningAlg r \<and>
      cmp_Equal_slice cmp_Equal_JWTKeyPair (go_JWTKeyPairs l) (go_JWTKeyPairs r))"

definition CertAuthoritiesEquivalent :: "go_CertAuthorityV2 \<Rightarrow> go_CertAuthorityV2 \<Rightarrow> bool" where
  "CertAuthoritiesEquivalent lhs rhs =
     (go_Kind lhs = go_Kind rhs \<and> go_SubKind lhs = go_SubKind rhs \<and>
      go_Version lhs = go_Version rhs \<and>
      cmp_Equal_Metadata (go_Metadata lhs) (go_Metadata rhs) \<and>
      cmp_Equal_Spec (go_Spec lhs) (go_Spec rhs))"

subsection \<open>Validation\<close>

definition checkUserOrHostCA ::
  "('priv, 'pub, 'key, 'clock) deps \<Rightarrow> CertAuthorityV2 \<Rightarrow> error option" where
  "checkUserOrHostCA env ca =
     (if GetCheckingKeys ca = [] then
        Some (BadParameter ''certificate authority missing SSH public keys'')
      else if GetTLSKeyPairs ca = [] then
        Some (BadParameter ''certificate authority missing TLS key pairs'')
      else case GetCheckers env ca of
        Some e \<Rightarrow> Some (Wrap e)
      | None \<Rightarrow>
        (case GetSigners env ca of
           Some e \<Rightarrow> Some (Wrap e)
         | None \<Rightarrow>
           if GetRoles ca \<noteq> [] \<and> GetRoleMap ca \<noteq> [] then
             Some (BadParameter ''should set either 'roles' or 'role_map', not both'')
           else map_option Wrap (parseRoleMap env (GetRoleMap ca))))"

text \<open>
  The loop of \<open>checkJWTKeys\<close>. The variable \<open>privateKey\<close> is declared before the loop
  and is assigned only when a pair has a private key, so a pair without one is checked
  with the private key of the last pair that had one.
\<close>

fun checkJWTKeys_loop ::
  "('priv, 'pub, 'key, 'clock) deps \<Rightarrow> CertAuthorityV2 \<Rightarrow> 'priv option \<Rightarrow> JWTKeyPair list
     \<Rightarrow> error option" where
  "checkJWTKeys_loop env ca privateKey [] = None"
| "checkJWTKeys_loop env ca privateKey (pair # pairs) =
     (case (if PrivateKey pair \<noteq> [] then
              map_sum Wrap Some (ParsePrivateKey env (PrivateKey pair))
            else Inr privateKey) of
        Inl e \<Rightarrow> Some e
      | Inr privateKey' \<Rightarrow>
        (case ParsePublicKey env (PublicKey pair) of
           Inl e \<Rightarrow> Some (Wrap e)
         | Inr publicKey \<Rightarrow>
           (case jwt_New env
                   \<lparr>Clock = None, Algorithm = ApplicationTokenAlgorithm env,
                    jwt_ClusterName = GetClusterName ca,
                    jwt_PrivateKey = privateKey', jwt_PublicKey = Some publicKey\<rparr> of
              Inl e \<Rightarrow> Some (Wrap e)
            | Inr _ \<Rightarrow> checkJWTKeys_loop env ca privateKey' pairs)))"

definition checkJWTKeys ::
  "('priv, 'pub, 'key, 'clock) deps \<Rightarrow> CertAuthorityV2 \<Rightarrow> error option" where
  "checkJWTKeys env ca =
     (if GetJWTKeyPairs ca = [] then Some (BadParameter ''missing JWT CA'')
      else checkJWTKeys_loop env ca None (GetJWTKeyPairs ca))"

text \<open>
  \<open>ValidateCertAuthority\<close> takes a pointer and returns an error; the CA's
  \<open>CheckAndSetDefaults\<close> may have written to the CA, so the model returns the CA as
  validation leaves it when there is no error.
\<close>

fun showCertAuthType :: "CertAuthType \<Rightarrow> string" where
  "showCertAuthType HostCA = ''host''"
| "showCertAuthType UserCA = ''user''"
| "showCertAuthType JWTSigner = ''jwt''"
| "showCertAuthType (OtherCAType t) = t"

definition ValidateCertAuthority ::
  "('priv, 'pub, 'key, 'clock) deps \<Rightarrow> CertAuthorityV2 \<Rightarrow> error + CertAuthorityV2" where
  "ValidateCertAuthority env ca =
     (case CheckAndSetDefaults env ca of
        Inl e \<Rightarrow> Inl (Wrap e)
      | Inr ca' \<Rightarrow>
        (case GetType ca' of
           UserCA \<Rightarrow> (case checkUserOrHostCA env ca' of Some e \<Rightarrow> Inl (Wrap e) | None \<Rightarrow> Inr ca')
         | HostCA \<Rightarrow> (case checkUserOrHostCA env ca' of Some e \<Rightarrow> Inl (Wrap e) | None \<Rightarrow> Inr ca')
         | JWTSigner \<Rightarrow> (case checkJWTKeys env ca' of Some e \<Rightarrow> Inl (Wrap e) | None \<Rightarrow> Inr ca')
         | OtherCAType t \<Rightarrow>
             Inl (BadParameter (''invalid CA type '' @ showCertAuthType (OtherCAType t)))))"

subsection \<open>The JWT signer\<close>

definition GetJWTSigner ::
  "('priv, 'pub, 'key, 'clock) deps \<Rightarrow> CertAuthorityV2 \<Rightarrow> 'clock \<Rightarrow> error + 'key" where
  "GetJWTSigner env ca clock =
     (case GetJWTKeyPairs ca of
        [] \<Rightarrow> Inl (BadParameter ''no JWT keypairs found'')
      | pair # _ \<Rightarrow>
        (case ParsePrivateKey env (PrivateKey pair) of
           Inl e \<Rightarrow> Inl (Wrap e)
         | Inr privateKey \<Rightarrow>
           (case jwt_New env
                   \<lparr>Clock = Some clock, Algorithm = ApplicationTokenAlgorithm env,
                    jwt_ClusterName = GetClusterName ca,
                    jwt_PrivateKey = Some privateKey, jwt_PublicKey = None\<rparr> of
              Inl e \<Rightarrow> Inl (Wrap e)
            | Inr key \<Rightarrow> Inr key)))"

subsection \<open>Certificate pools\<close>

text \<open>
  An \<open>x509.CertPool\<close> is the list of the certificates added to it; \<open>AddCert\<close> does
  not add a certificate that the pool already holds. \<open>tlsca.ParseCertificatePEM\<close>
  is a parameter.
\<close>

definition AddCert :: "'cert list \<Rightarrow> 'cert \<Rightarrow> 'cert list" where
  "AddCert certPool cert = (if cert \<in> set certPool then certPool else certPool @ [cert])"

fun addKeyPairs ::
  "(bytes \<Rightarrow> error + 'cert) \<Rightarrow> 'cert list \<Rightarrow> TLSKeyPair list \<Rightarrow> error + 'cert list" where
  "addKeyPairs ParseCertificatePEM certPool [] = Inr certPool"
| "addKeyPairs ParseCertificatePEM certPool (keyPair # keyPairs) =
     (case ParseCertificatePEM (Cert keyPair) of
        Inl e \<Rightarrow> Inl (Wrap e)
      | Inr cert \<Rightarrow> addKeyPairs ParseCertificatePEM (AddCert certPool cert) keyPairs)"

fun addCertAuthorities ::
  "(bytes \<Rightarrow> error + 'cert) \<Rightarrow> 'cert list \<Rightarrow> CertAuthorityV2 list \<Rightarrow> error + 'cert list" where
  "addCertAuthorities ParseCertificatePEM certPool [] = Inr certPool"
| "addCertAuthorities ParseCertificatePEM certPool (ca # cas) =
     (if GetTLSKeyPairs ca = [] then addCertAuthorities ParseCertificatePEM certPool cas
      else case addKeyPairs ParseCertificatePEM certPool (GetTLSKeyPairs ca) of
        Inl e \<Rightarrow> Inl e
      | Inr certPool' \<Rightarrow> addCertAuthorities ParseCertificatePEM certPool' cas)"

definition CertPoolFromCertAuthorities ::
  "(bytes \<Rightarrow> error + 'cert) \<Rightarrow> CertAuthorityV2 list \<Rightarrow> error + 'cert list" where
  "CertPoolFromCertAuthorities ParseCertificatePEM cas =
     addCertAuthorities ParseCertificatePEM [] cas"

definition CertPool ::
  "(bytes \<Rightarrow> error + 'cert) \<Rightarrow> CertAuthorityV2 \<Rightarrow> error + 'cert list" where
  "CertPool ParseCertificatePEM ca =
     (if GetTLSKeyPairs ca = [] then
        Inl (BadParameter ''certificate authority has no TLS certificates'')
      else addKeyPairs ParseCertificatePEM [] (GetTLSKeyPairs ca))"

subsection \<open>Unmarshalling\<close>

text \<open>
  \<open>UnmarshalCertAuthority\<close>. The decoded CA is a local variable of the function and
  the function returns its address: the model returns the value.
\<close>

definition UnmarshalCertAuthority ::
  "('priv, 'pub, 'key, 'clock) deps \<Rightarrow> codec \<Rightarrow> bytes \<Rightarrow> MarshalOption list
     \<Rightarrow> error + CertAuthorityV2" where
  "UnmarshalCertAuthority env js bs opts =
     (case CollectOptions opts of
        Inl e \<Rightarrow> Inl (Wrap e)
      | Inr cfg \<Rightarrow>
        (case FastUnmarshal_ResourceHeader js bs of
           Inl e \<Rightarrow> Inl (Wrap e)
         | Inr h \<Rightarrow>
           if rh_Version h = V2 then
             (case FastUnmarshal_CertAuthorityV2 js bs of
                Inl e \<Rightarrow> Inl (BadParameter (Error e))
              | Inr ca \<Rightarrow>
                (case ValidateCertAuthority env ca of
                   Inl e \<Rightarrow> Inl (Wrap e)
                 | Inr ca' \<Rightarrow>
                     Inr (if cfg_ID cfg \<noteq> 0 then SetResourceID ca' (cfg_ID cfg) else ca')))
           else
             Inl (BadParameter (''cert authority resource version '' @ rh_Version h
                                  @ '' is not supported''))))"

definition UnmarshalClusterName ::
  "('priv, 'pub, 'key, 'clock) deps \<Rightarrow> codec \<Rightarrow> bytes \<Rightarrow> MarshalOption list
     \<Rightarrow> error + ClusterNameV2" where
  "UnmarshalClusterName env js bs opts =
     (if bs = [] then Inl (BadParameter ''missing resource data'')
      else case CollectOptions opts of
        Inl e \<Rightarrow> Inl (Wrap e)
      | Inr cfg \<Rightarrow>
        (case FastUnmarshal_ClusterNameV2 js bs of
           Inl e \<Rightarrow> Inl (BadParameter (Error e))
         | Inr clusterName \<Rightarrow>
           (case cn_CheckAndSetDefaults env clusterName of
              Inl e \<Rightarrow> Inl (Wrap e)
            | Inr clusterName1 \<Rightarrow>
              let clusterName2 =
                    (if cfg_ID cfg \<noteq> 0 then cn_SetResourceID clusterName1 (cfg_ID cfg)
                     else clusterName1);
                  clusterName3 =
                    (if \<not> IsZero (cfg_Expires cfg) then cn_SetExpiry clusterName2 (cfg_Expires cfg)
                     else clusterName2)
              in Inr clusterName3)))"

subsection \<open>Marshalling\<close>

text \<open>
  The marshal functions take a pointer to an object that the caller goes on using, and
  whether they write to that object is what is asked of them. So here the objects live
  in a store: a list of cells, the address of a cell being its index. \<open>copy := *p\<close>
  puts the value of the cell into a new cell, and \<open>copy.SetResourceID(0)\<close> writes to
  the cell whose address it is given.
\<close>

type_synonym 'a store = "'a list"

definition load :: "'a store \<Rightarrow> nat \<Rightarrow> 'a option" where
  "load st p = (if p < length st then Some (st ! p) else None)"

definition new :: "'a store \<Rightarrow> 'a \<Rightarrow> nat \<times> 'a store" where
  "new st v = (length st, st @ [v])"

definition SetResourceID_at :: "CertAuthorityV2 store \<Rightarrow> nat \<Rightarrow> 64 word \<Rightarrow> CertAuthorityV2 store" where
  "SetResourceID_at st p i = (if p < length st then st[p := SetResourceID (st ! p) i] else st)"

definition cn_SetResourceID_at :: "ClusterNameV2 store \<Rightarrow> nat \<Rightarrow> 64 word \<Rightarrow> ClusterNameV2 store" where
  "cn_SetResourceID_at st p i = (if p < length st then st[p := cn_SetResourceID (st ! p) i] else st)"

text \<open>
  The argument is an interface value: a pointer to a \<open>CertAuthorityV2\<close>, or a value of
  some other type that implements the interface, of which the function uses the name
  of the type only.
\<close>

datatype CertAuthority = CertAuthorityV2_ptr nat | CertAuthority_other string

datatype ClusterName = ClusterNameV2_ptr nat | ClusterName_other string

definition MarshalCertAuthority ::
  "codec \<Rightarrow> CertAuthorityV2 store \<Rightarrow> CertAuthority \<Rightarrow> MarshalOption list
     \<Rightarrow> (error + bytes) \<times> CertAuthorityV2 store" where
  "MarshalCertAuthority js st certAuthority opts =
     (case CollectOptions opts of
        Inl e \<Rightarrow> (Inl (Wrap e), st)
      | Inr cfg \<Rightarrow>
        (case certAuthority of
           CertAuthorityV2_ptr p \<Rightarrow>
             (case load st p of
                None \<Rightarrow> (Inl (Panic ''invalid memory address or nil pointer dereference''), st)
              | Some ca \<Rightarrow>
                if GetVersion ca \<noteq> V2 then
                  (Inl (BadParameter (''mismatched certificate authority version ''
                                        @ GetVersion ca @ '' and type *types.CertAuthorityV2'')), st)
                else if \<not> cfg_PreserveResourceID cfg then
                  (let (copy, st1) = new st ca;
                       st2 = SetResourceID_at st1 copy 0
                   in case load st2 copy of
                        None \<Rightarrow> (Inl (Panic ''invalid memory address or nil pointer dereference''), st2)
                      | Some v \<Rightarrow> (FastMarshal_CertAuthorityV2 js v, st2))
                else (FastMarshal_CertAuthorityV2 js ca, st))
         | CertAuthority_other t \<Rightarrow>
             (Inl (BadParameter (''unrecognized certificate authority version '' @ t)), st)))"

definition MarshalClusterName ::
  "codec \<Rightarrow> ClusterNameV2 store \<Rightarrow> ClusterName \<Rightarrow> MarshalOption list
     \<Rightarrow> (error + bytes) \<times> ClusterNameV2 store" where
  "MarshalClusterName js st clusterName opts =
     (case CollectOptions opts of
        Inl e \<Rightarrow> (Inl (Wrap e), st)
      | Inr cfg \<Rightarrow>
        (case clusterName of
           ClusterNameV2_ptr p \<Rightarrow>
             (case load st p of
                None \<Rightarrow> (Inl (Panic ''invalid memory address or nil pointer dereference''), st)
              | Some cn \<Rightarrow>
                if cn_Version cn \<noteq> V2 then
                  (Inl (BadParameter (''mismatched cluster name version ''
                                        @ cn_Version cn @ '' and type *types.ClusterNameV2'')), st)
                else if \<not> cfg_PreserveResourceID cfg then
                  (let (copy, st1) = new st cn;
                       st2 = cn_SetResourceID_at st1 copy 0
                   in case load st2 copy of
                        None \<Rightarrow> (Inl (Panic ''invalid memory address or nil pointer dereference''), st2)
                      | Some v \<Rightarrow> (FastMarshal_ClusterNameV2 js v, st2))
                else (FastMarshal_ClusterNameV2 js cn, st))
         | ClusterName_other t \<Rightarrow>
             (Inl (BadParameter (''unrecognized cluster name version '' @ t)), st)))"

section \<open>Helpers of other packages, as the spec describes them\<close>

text \<open>
  Modelled from the spec: \<open>sshutils.GetCheckers\<close> and \<open>sshutils.GetSigners\<close> are
  not in the two files. The spec says of validation that it attempts "to construct
  verifier handles from every checking key and every TLS key pair (parse failures
  propagate as the underlying parse error, not swallowed)": the keys are parsed in
  order and the first parse error is the result. The parsers are parameters.
\<close>

fun firstError :: "('a \<Rightarrow> error + 'v) \<Rightarrow> 'a list \<Rightarrow> error option" where
  "firstError parse [] = None"
| "firstError parse (k # ks) =
     (case parse k of Inl e \<Rightarrow> Some e | Inr _ \<Rightarrow> firstError parse ks)"

definition spec_GetCheckers :: "(bytes \<Rightarrow> error + 'v) \<Rightarrow> CertAuthorityV2 \<Rightarrow> error option" where
  "spec_GetCheckers parseKey ca = firstError parseKey (GetCheckingKeys ca)"

definition spec_GetSigners :: "(TLSKeyPair \<Rightarrow> error + 'v) \<Rightarrow> CertAuthorityV2 \<Rightarrow> error option" where
  "spec_GetSigners parsePair ca = firstError parsePair (GetTLSKeyPairs ca)"

text \<open>
  Modelled from the spec: \<open>parseRoleMap\<close> is not in the two files. The spec has it
  "verify each rule is structurally well-formed (non-empty match pattern, non-empty
  target role list)" and fail on the first rule that is not.
\<close>

definition checkRoleMapping :: "RoleMapping \<Rightarrow> error + RoleMapping" where
  "checkRoleMapping r =
     (if Remote r = [] then Inl (BadParameter ''role map rule has an empty match pattern'')
      else if Local r = [] then Inl (BadParameter ''role map rule has no target roles'')
      else Inr r)"

definition spec_parseRoleMap :: "RoleMapping list \<Rightarrow> error option" where
  "spec_parseRoleMap rm = firstError checkRoleMapping rm"

text \<open>
  Modelled from the spec: the \<open>CheckAndSetDefaults\<close> methods of \<open>CertAuthorityV2\<close>
  and \<open>ClusterNameV2\<close> are not in the two files. The spec calls the CA's one a
  "structural defaulting/self-check (required fields non-empty, version recognized)",
  and requires the cluster name to be non-empty "for every CA and for the related
  ClusterName resource".
\<close>

definition spec_CheckAndSetDefaults :: "CertAuthorityV2 \<Rightarrow> error + CertAuthorityV2" where
  "spec_CheckAndSetDefaults ca =
     (if ClusterName (Spec ca) = [] then Inl (BadParameter ''missing parameter cluster name'')
      else if Version ca \<noteq> V2 then Inl (BadParameter ''unrecognized version'')
      else Inr ca)"

definition spec_cn_CheckAndSetDefaults :: "ClusterNameV2 \<Rightarrow> error + ClusterNameV2" where
  "spec_cn_CheckAndSetDefaults c =
     (if cn_ClusterName (cn_Spec c) = [] then Inl (BadParameter ''cluster name is required'')
      else Inr c)"

section \<open>An instance of the parameters\<close>

text \<open>
  The examples below run the package on one instance of its parameters. A key or a
  certificate parses when it starts with \<open>PEM:\<close>, and the handle is what follows; a
  JWT key is the configuration it was built from, and building it needs a key, an
  algorithm and a cluster name.
\<close>

definition example_parse :: "bytes \<Rightarrow> error + bytes" where
  "example_parse b =
     (if take 4 b = ''PEM:'' then Inr (drop 4 b) else Inl (LibError ''no PEM data found''))"

definition example_parsePair :: "TLSKeyPair \<Rightarrow> error + bytes" where
  "example_parsePair kp = example_parse (Cert kp)"

definition example_jwt_New ::
  "(string, bytes, bytes) Config \<Rightarrow> error + (string, bytes, bytes) Config" where
  "example_jwt_New cfg =
     (if jwt_PrivateKey cfg = None \<and> jwt_PublicKey cfg = None then
        Inl (BadParameter ''public or private key is required'')
      else if Algorithm cfg = [] then Inl (BadParameter ''algorithm is required'')
      else if jwt_ClusterName cfg = [] then Inl (BadParameter ''cluster name is required'')
      else Inr cfg)"

definition example_deps :: "(bytes, bytes, (string, bytes, bytes) Config, string) deps" where
  "example_deps =
     \<lparr>CheckAndSetDefaults = spec_CheckAndSetDefaults,
      GetCheckers = spec_GetCheckers example_parse,
      GetSigners = spec_GetSigners example_parsePair,
      parseRoleMap = spec_parseRoleMap,
      ParsePrivateKey = example_parse,
      ParsePublicKey = example_parse,
      jwt_New = example_jwt_New,
      ApplicationTokenAlgorithm = ''RS256'',
      cn_CheckAndSetDefaults = spec_cn_CheckAndSetDefaults\<rparr>"

text \<open>Two certificate authorities and a cluster name.\<close>

definition example_host_ca :: CertAuthorityV2 where
  "example_host_ca =
     \<lparr>Kind = ''cert_authority'', SubKind = ''host'', Version = V2,
      Metadata = \<lparr>Name = ''example.com'', Expires = None, ID = 7\<rparr>,
      Spec = \<lparr>Type = HostCA, ClusterName = ''example.com'',
              CheckingKeys = [''PEM:ssh-pub-1''], SigningKeys = [''PEM:ssh-priv-1''],
              Roles = [], RoleMap = [\<lparr>Remote = ''remote-admin'', Local = [''admin'']\<rparr>],
              TLSKeyPairs = [\<lparr>Cert = ''PEM:cert-1'', Key = ''PEM:key-1''\<rparr>,
                             \<lparr>Cert = ''PEM:cert-2'', Key = ''PEM:key-2''\<rparr>],
              SigningAlg = 0, JWTKeyPairs = []\<rparr>\<rparr>"

definition example_jwt_ca :: CertAuthorityV2 where
  "example_jwt_ca =
     \<lparr>Kind = ''cert_authority'', SubKind = ''jwt'', Version = V2,
      Metadata = \<lparr>Name = ''cluster-x'', Expires = None, ID = 0\<rparr>,
      Spec = \<lparr>Type = JWTSigner, ClusterName = ''cluster-x'',
              CheckingKeys = [], SigningKeys = [],
              Roles = [''admin''], RoleMap = [\<lparr>Remote = ''remote-admin'', Local = [''admin'']\<rparr>],
              TLSKeyPairs = [], SigningAlg = 0,
              JWTKeyPairs = [\<lparr>PublicKey = ''PEM:jwt-pub-1'', PrivateKey = ''PEM:jwt-priv-1''\<rparr>,
                             \<lparr>PublicKey = ''PEM:jwt-pub-2'', PrivateKey = []\<rparr>]\<rparr>\<rparr>"

definition example_cluster_name :: ClusterNameV2 where
  "example_cluster_name =
     \<lparr>cn_Kind = ''cluster_name'', cn_SubKind = [], cn_Version = V2,
      cn_Metadata = \<lparr>Name = ''cluster-name'', Expires = None, ID = 7\<rparr>,
      cn_Spec = \<lparr>cn_ClusterName = ''example.com''\<rparr>\<rparr>"

text \<open>
  An instance of the JSON functions, given by the buffers it knows: the encodings of
  the host CA above with its resource ID and with the resource ID zero, of the cluster
  name above likewise, and a cluster name whose header says version 99.
\<close>

definition example_ca_bytes :: bytes where
  "example_ca_bytes = ''{kind: cert_authority, sub_kind: host, version: 2, metadata: {name: example.com, id: 7}, spec: {type: host, cluster_name: example.com, ...}}''"

definition example_ca_bytes_0 :: bytes where
  "example_ca_bytes_0 = ''{kind: cert_authority, sub_kind: host, version: 2, metadata: {name: example.com}, spec: {type: host, cluster_name: example.com, ...}}''"

definition example_cn_bytes :: bytes where
  "example_cn_bytes = ''{kind: cluster_name, version: 2, metadata: {name: cluster-name, id: 7}, spec: {cluster_name: example.com}}''"

definition example_cn_bytes_0 :: bytes where
  "example_cn_bytes_0 = ''{kind: cluster_name, version: 2, metadata: {name: cluster-name}, spec: {cluster_name: example.com}}''"

definition example_cn_bytes_99 :: bytes where
  "example_cn_bytes_99 = ''{kind: cluster_name, version: 99, metadata: {name: cluster-name}, spec: {cluster_name: example.com}}''"

definition example_cluster_name_99 :: ClusterNameV2 where
  "example_cluster_name_99 =
     \<lparr>cn_Kind = ''cluster_name'', cn_SubKind = [], cn_Version = ''99'',
      cn_Metadata = \<lparr>Name = ''cluster-name'', Expires = None, ID = 0\<rparr>,
      cn_Spec = \<lparr>cn_ClusterName = ''example.com''\<rparr>\<rparr>"

definition header_of :: "CertAuthorityV2 \<Rightarrow> ResourceHeader" where
  "header_of ca =
     \<lparr>rh_Kind = Kind ca, rh_SubKind = SubKind ca, rh_Version = Version ca,
      rh_Metadata = Metadata ca\<rparr>"

definition cn_header_of :: "ClusterNameV2 \<Rightarrow> ResourceHeader" where
  "cn_header_of c =
     \<lparr>rh_Kind = cn_Kind c, rh_SubKind = cn_SubKind c, rh_Version = cn_Version c,
      rh_Metadata = cn_Metadata c\<rparr>"

definition example_decode_ca :: "bytes \<Rightarrow> error + CertAuthorityV2" where
  "example_decode_ca bs =
     (if bs = example_ca_bytes then Inr example_host_ca
      else if bs = example_ca_bytes_0 then Inr (SetResourceID example_host_ca 0)
      else Inl (LibError ''ReadObject: unexpected input''))"

definition example_decode_cn :: "bytes \<Rightarrow> error + ClusterNameV2" where
  "example_decode_cn bs =
     (if bs = example_cn_bytes then Inr example_cluster_name
      else if bs = example_cn_bytes_0 then Inr (cn_SetResourceID example_cluster_name 0)
      else if bs = example_cn_bytes_99 then Inr example_cluster_name_99
      else Inl (LibError ''ReadObject: unexpected input''))"

definition example_decode_header :: "bytes \<Rightarrow> error + ResourceHeader" where
  "example_decode_header bs =
     (case example_decode_ca bs of
        Inr ca \<Rightarrow> Inr (header_of ca)
      | Inl _ \<Rightarrow> map_sum id cn_header_of (example_decode_cn bs))"

definition example_encode_ca :: "CertAuthorityV2 \<Rightarrow> error + bytes" where
  "example_encode_ca ca =
     (if ca = example_host_ca then Inr example_ca_bytes
      else if ca = SetResourceID example_host_ca 0 then Inr example_ca_bytes_0
      else Inl (LibError ''WriteObject: unexpected value''))"

definition example_encode_cn :: "ClusterNameV2 \<Rightarrow> error + bytes" where
  "example_encode_cn c =
     (if c = example_cluster_name then Inr example_cn_bytes
      else if c = cn_SetResourceID example_cluster_name 0 then Inr example_cn_bytes_0
      else if c = example_cluster_name_99 then Inr example_cn_bytes_99
      else Inl (LibError ''WriteObject: unexpected value''))"

definition example_codec :: codec where
  "example_codec =
     \<lparr>FastUnmarshal_ResourceHeader = example_decode_header,
      FastUnmarshal_CertAuthorityV2 = example_decode_ca,
      FastMarshal_CertAuthorityV2 = example_encode_ca,
      FastUnmarshal_ClusterNameV2 = example_decode_cn,
      FastMarshal_ClusterNameV2 = example_encode_cn\<rparr>"

text \<open>The host CA with a second certificate that is not PEM.\<close>

definition example_broken_ca :: CertAuthorityV2 where
  "example_broken_ca =
     example_host_ca\<lparr>Spec := (Spec example_host_ca)
        \<lparr>TLSKeyPairs := [\<lparr>Cert = ''PEM:cert-1'', Key = ''PEM:key-1''\<rparr>,
                         \<lparr>Cert = ''garbage'', Key = ''PEM:key-2''\<rparr>]\<rparr>\<rparr>"

text \<open>The host CA with a role list beside its role map.\<close>

definition example_both_ca :: CertAuthorityV2 where
  "example_both_ca = example_host_ca\<lparr>Spec := (Spec example_host_ca)\<lparr>Roles := [''admin'']\<rparr>\<rparr>"

text \<open>The host CA with an empty role name in its role list and no role map.\<close>

definition example_roles_only_ca :: CertAuthorityV2 where
  "example_roles_only_ca =
     example_host_ca\<lparr>Spec := (Spec example_host_ca)\<lparr>Roles := [''''], RoleMap := []\<rparr>\<rparr>"

text \<open>
  The host CA as a Go value, with a nil role list, and the same with an empty role
  list that is not nil.
\<close>

definition example_go_ca :: go_CertAuthorityV2 where
  "example_go_ca =
     \<lparr>go_Kind = ''cert_authority'', go_SubKind = ''host'', go_Version = V2,
      go_Metadata = \<lparr>Name = ''example.com'', Expires = None, ID = 7\<rparr>,
      go_Spec = \<lparr>go_Type = HostCA, go_ClusterName = ''example.com'',
              go_CheckingKeys = Slice [Slice ''PEM:ssh-pub-1''],
              go_SigningKeys = Slice [Slice ''PEM:ssh-priv-1''],
              go_Roles = NilSlice,
              go_RoleMap = Slice [\<lparr>go_Remote = ''remote-admin'', go_Local = Slice [''admin'']\<rparr>],
              go_TLSKeyPairs = Slice [\<lparr>go_Cert = Slice ''PEM:cert-1'', go_Key = Slice ''PEM:key-1''\<rparr>,
                                      \<lparr>go_Cert = Slice ''PEM:cert-2'', go_Key = Slice ''PEM:key-2''\<rparr>],
              go_SigningAlg = 0, go_JWTKeyPairs = NilSlice\<rparr>\<rparr>"

definition example_go_ca_empty_roles :: go_CertAuthorityV2 where
  "example_go_ca_empty_roles =
     example_go_ca\<lparr>go_Spec := (go_Spec example_go_ca)\<lparr>go_Roles := Slice []\<rparr>\<rparr>"

text \<open>The JWT signer CA without its JWT key pairs.\<close>

definition example_empty_jwt_ca :: CertAuthorityV2 where
  "example_empty_jwt_ca = example_jwt_ca\<lparr>Spec := (Spec example_jwt_ca)\<lparr>JWTKeyPairs := []\<rparr>\<rparr>"

section \<open>User certificate parameters: defaults\<close>

text \<open>
  C10. With a non-empty signing key, a non-empty signing algorithm and at least one
  allowed login, \<open>CheckAndSetDefaults\<close> returns no error, whatever the TTL: a TTL
  below the minimum certificate duration is replaced by that minimum, a TTL at or above
  it is kept, and every other field is as it was.
\<close>

theorem UserCertParams_CheckAndSetDefaults_raises_TTL:
  assumes "PrivateCASigningKey c \<noteq> []" and "CASigningAlg c \<noteq> []"
    and "AllowedLogins c \<noteq> []"
  shows "UserCertParams_CheckAndSetDefaults m c =
           (None, c\<lparr>TTL := (if TTL c < m then m else TTL c)\<rparr>)"
  using assms by (simp add: UserCertParams_CheckAndSetDefaults_def Let_def)

theorem UserCertParams_CheckAndSetDefaults_raises_TTL_witness:
  "UserCertParams_CheckAndSetDefaults 60
     \<lparr>PrivateCASigningKey = ''key'', CASigningAlg = ''rsa-sha2-512'', PublicUserKey = ''pub'',
      TTL = 5, Username = ''alice'', Impersonator = [], AllowedLogins = [''root''],
      PermitX11Forwarding = False, PermitAgentForwarding = True,
      PermitPortForwarding = False, UserRoles = [''admin''], CertificateFormat = [],
      RouteToCluster = [], Traits = [], ActiveRequests = [], MFAVerified = [],
      ClientIP = []\<rparr>
   = (None,
     \<lparr>PrivateCASigningKey = ''key'', CASigningAlg = ''rsa-sha2-512'', PublicUserKey = ''pub'',
      TTL = 60, Username = ''alice'', Impersonator = [], AllowedLogins = [''root''],
      PermitX11Forwarding = False, PermitAgentForwarding = True,
      PermitPortForwarding = False, UserRoles = [''admin''], CertificateFormat = [],
      RouteToCluster = [], Traits = [], ActiveRequests = [], MFAVerified = [],
      ClientIP = []\<rparr>)"
  using UserCertParams_CheckAndSetDefaults_raises_TTL [of
     "\<lparr>PrivateCASigningKey = ''key'', CASigningAlg = ''rsa-sha2-512'', PublicUserKey = ''pub'',
      TTL = 5, Username = ''alice'', Impersonator = [], AllowedLogins = [''root''],
      PermitX11Forwarding = False, PermitAgentForwarding = True,
      PermitPortForwarding = False, UserRoles = [''admin''], CertificateFormat = [],
      RouteToCluster = [], Traits = [], ActiveRequests = [], MFAVerified = [],
      ClientIP = []\<rparr>" 60]
  by simp

section \<open>Equivalence of certificate authorities\<close>

lemma cmp_Equal_slice_eq:
  assumes "\<And>x y. eq x y \<longleftrightarrow> x = y"
  shows "cmp_Equal_slice eq l r \<longleftrightarrow> l = r"
proof -
  have "eq = (=)" using assms by (intro ext) simp
  then show ?thesis by (cases l; cases r) (simp_all add: list_all2_eq [symmetric])
qed

lemma cmp_Equal_bytes_eq: "cmp_Equal_bytes l r \<longleftrightarrow> l = r"
  by (simp add: cmp_Equal_bytes_def cmp_Equal_slice_eq)

lemma cmp_Equal_TLSKeyPair_eq: "cmp_Equal_TLSKeyPair l r \<longleftrightarrow> l = r"
  by (cases l; cases r) (simp add: cmp_Equal_TLSKeyPair_def cmp_Equal_bytes_eq)

lemma cmp_Equal_JWTKeyPair_eq: "cmp_Equal_JWTKeyPair l r \<longleftrightarrow> l = r"
  by (cases l; cases r) (simp add: cmp_Equal_JWTKeyPair_def cmp_Equal_bytes_eq)

lemma cmp_Equal_RoleMapping_eq: "cmp_Equal_RoleMapping l r \<longleftrightarrow> l = r"
  by (cases l; cases r) (simp add: cmp_Equal_RoleMapping_def cmp_Equal_slice_eq)

lemma cmp_Equal_Spec_eq: "cmp_Equal_Spec l r \<longleftrightarrow> l = r"
  by (cases l; cases r)
     (simp add: cmp_Equal_Spec_def cmp_Equal_slice_eq cmp_Equal_bytes_eq
        cmp_Equal_TLSKeyPair_eq cmp_Equal_JWTKeyPair_eq cmp_Equal_RoleMapping_eq)

lemma CertAuthoritiesEquivalent_fields:
  "CertAuthoritiesEquivalent lhs rhs \<longleftrightarrow>
     go_Kind lhs = go_Kind rhs \<and> go_SubKind lhs = go_SubKind rhs \<and>
     go_Version lhs = go_Version rhs \<and> Name (go_Metadata lhs) = Name (go_Metadata rhs) \<and>
     Expires (go_Metadata lhs) = Expires (go_Metadata rhs) \<and> go_Spec lhs = go_Spec rhs"
  by (simp add: CertAuthoritiesEquivalent_def cmp_Equal_Metadata_def cmp_Equal_Spec_eq)

text \<open>
  C9. \<open>CertAuthoritiesEquivalent lhs rhs\<close> holds exactly when \<open>rhs\<close> is \<open>lhs\<close> with
  some resource ID in place of its own, that is, when the two are equal as Go values
  (a nil slice being different from an empty one) in every field but the resource ID
  of the metadata. So it holds between a CA and the same CA with another resource ID,
  and it fails as soon as a TLS or JWT key pair, an SSH checking or signing key, a
  role, a role-map rule or the cluster name differs.
\<close>

theorem CertAuthoritiesEquivalent_ignores_only_ID:
  "(CertAuthoritiesEquivalent lhs rhs \<longleftrightarrow> (\<exists>i. rhs = go_SetResourceID lhs i))
   \<and> CertAuthoritiesEquivalent lhs (go_SetResourceID lhs i)
   \<and> (go_TLSKeyPairs (go_Spec lhs) \<noteq> go_TLSKeyPairs (go_Spec rhs) \<or>
      go_JWTKeyPairs (go_Spec lhs) \<noteq> go_JWTKeyPairs (go_Spec rhs) \<or>
      go_CheckingKeys (go_Spec lhs) \<noteq> go_CheckingKeys (go_Spec rhs) \<or>
      go_SigningKeys (go_Spec lhs) \<noteq> go_SigningKeys (go_Spec rhs) \<or>
      go_Roles (go_Spec lhs) \<noteq> go_Roles (go_Spec rhs) \<or>
      go_RoleMap (go_Spec lhs) \<noteq> go_RoleMap (go_Spec rhs) \<or>
      go_ClusterName (go_Spec lhs) \<noteq> go_ClusterName (go_Spec rhs)
      \<longrightarrow> \<not> CertAuthoritiesEquivalent lhs rhs)"
proof (intro conjI)
  show "CertAuthoritiesEquivalent lhs rhs \<longleftrightarrow> (\<exists>i. rhs = go_SetResourceID lhs i)"
  proof
    assume eq: "CertAuthoritiesEquivalent lhs rhs"
    have "rhs = go_SetResourceID lhs (ID (go_Metadata rhs))"
      using eq
      by (cases lhs; cases rhs; cases "go_Metadata lhs"; cases "go_Metadata rhs")
         (auto simp: CertAuthoritiesEquivalent_fields go_SetResourceID_def)
    then show "\<exists>i. rhs = go_SetResourceID lhs i" ..
  next
    assume "\<exists>i. rhs = go_SetResourceID lhs i"
    then show "CertAuthoritiesEquivalent lhs rhs"
      by (auto simp: CertAuthoritiesEquivalent_fields go_SetResourceID_def)
  qed
  show "CertAuthoritiesEquivalent lhs (go_SetResourceID lhs i)"
    by (simp add: CertAuthoritiesEquivalent_fields go_SetResourceID_def)
  show "go_TLSKeyPairs (go_Spec lhs) \<noteq> go_TLSKeyPairs (go_Spec rhs) \<or>
      go_JWTKeyPairs (go_Spec lhs) \<noteq> go_JWTKeyPairs (go_Spec rhs) \<or>
      go_CheckingKeys (go_Spec lhs) \<noteq> go_CheckingKeys (go_Spec rhs) \<or>
      go_SigningKeys (go_Spec lhs) \<noteq> go_SigningKeys (go_Spec rhs) \<or>
      go_Roles (go_Spec lhs) \<noteq> go_Roles (go_Spec rhs) \<or>
      go_RoleMap (go_Spec lhs) \<noteq> go_RoleMap (go_Spec rhs) \<or>
      go_ClusterName (go_Spec lhs) \<noteq> go_ClusterName (go_Spec rhs)
      \<longrightarrow> \<not> CertAuthoritiesEquivalent lhs rhs"
    by (auto simp: CertAuthoritiesEquivalent_fields)
qed

theorem CertAuthoritiesEquivalent_ignores_only_ID_witness:
  "CertAuthoritiesEquivalent example_go_ca (go_SetResourceID example_go_ca 42)
   \<and> go_Roles (go_Spec example_go_ca) = NilSlice
   \<and> go_Roles (go_Spec example_go_ca_empty_roles) = Slice []
   \<and> of_go example_go_ca_empty_roles = of_go example_go_ca
   \<and> \<not> CertAuthoritiesEquivalent example_go_ca example_go_ca_empty_roles"
proof -
  have roles: "go_Roles (go_Spec example_go_ca) = NilSlice"
    "go_Roles (go_Spec example_go_ca_empty_roles) = Slice []"
    by (simp_all add: example_go_ca_def example_go_ca_empty_roles_def)
  have same: "of_go example_go_ca_empty_roles = of_go example_go_ca"
    by (simp add: of_go_def example_go_ca_empty_roles_def roles(1))
  have differ: "go_Roles (go_Spec example_go_ca) \<noteq> go_Roles (go_Spec example_go_ca_empty_roles)"
    by (simp add: roles)
  note inst = CertAuthoritiesEquivalent_ignores_only_ID
         [of example_go_ca example_go_ca_empty_roles 42]
  from inst have ids: "CertAuthoritiesEquivalent example_go_ca (go_SetResourceID example_go_ca 42)"
    by (rule conjunct1 [OF conjunct2])
  from inst differ have apart: "\<not> CertAuthoritiesEquivalent example_go_ca example_go_ca_empty_roles"
    by blast
  from ids roles same apart show ?thesis by blast
qed

text \<open>
  Equivalent CAs are read alike by the rest of the package, up to the resource ID.
\<close>

lemma CertAuthoritiesEquivalent_of_go:
  assumes "CertAuthoritiesEquivalent lhs rhs"
  shows "SetResourceID (of_go lhs) 0 = SetResourceID (of_go rhs) 0"
  using assms
  by (simp add: CertAuthoritiesEquivalent_fields of_go_def SetResourceID_def)

section \<open>Certificate pools\<close>

lemma set_AddCert: "set (AddCert pool c) = insert c (set pool)"
  by (auto simp: AddCert_def)

lemma addKeyPairs_Inr:
  "addKeyPairs parse pool kps = Inr pool' \<Longrightarrow>
     set pool' = set pool \<union> {c. \<exists>kp\<in>set kps. parse (Cert kp) = Inr c}"
  by (induction kps arbitrary: pool) (auto simp: set_AddCert split: sum.splits)

lemma addKeyPairs_total:
  "(\<forall>kp\<in>set kps. \<not> isl (parse (Cert kp))) \<Longrightarrow> \<exists>pool'. addKeyPairs parse pool kps = Inr pool'"
  by (induction kps arbitrary: pool) (auto split: sum.splits)

lemma addKeyPairs_abort:
  "\<exists>kp\<in>set kps. isl (parse (Cert kp)) \<Longrightarrow> isl (addKeyPairs parse pool kps)"
  by (induction kps arbitrary: pool) (auto split: sum.splits)

lemma addCertAuthorities_Inr:
  "addCertAuthorities parse pool cas = Inr pool' \<Longrightarrow>
     set pool' = set pool \<union> {c. \<exists>ca\<in>set cas. \<exists>kp\<in>set (GetTLSKeyPairs ca). parse (Cert kp) = Inr c}"
proof (induction cas arbitrary: pool)
  case Nil
  then show ?case by simp
next
  case (Cons ca cas)
  show ?case
  proof (cases "GetTLSKeyPairs ca = []")
    case True
    with Cons show ?thesis by auto
  next
    case False
    with Cons.prems obtain p1 where
      p1: "addKeyPairs parse pool (GetTLSKeyPairs ca) = Inr p1"
      and rest: "addCertAuthorities parse p1 cas = Inr pool'"
      by (auto split: sum.splits)
    from addKeyPairs_Inr [OF p1] Cons.IH [OF rest] show ?thesis by auto
  qed
qed

lemma addCertAuthorities_total:
  "(\<forall>ca\<in>set cas. \<forall>kp\<in>set (GetTLSKeyPairs ca). \<not> isl (parse (Cert kp)))
     \<Longrightarrow> \<exists>pool'. addCertAuthorities parse pool cas = Inr pool'"
proof (induction cas arbitrary: pool)
  case Nil
  then show ?case by simp
next
  case (Cons ca cas)
  then obtain p1 where "addKeyPairs parse pool (GetTLSKeyPairs ca) = Inr p1"
    using addKeyPairs_total [of "GetTLSKeyPairs ca" parse pool] by auto
  with Cons show ?case by auto
qed

lemma addCertAuthorities_abort:
  "\<exists>ca\<in>set cas. \<exists>kp\<in>set (GetTLSKeyPairs ca). isl (parse (Cert kp))
     \<Longrightarrow> isl (addCertAuthorities parse pool cas)"
proof (induction cas arbitrary: pool)
  case Nil
  then show ?case by simp
next
  case (Cons ca cas)
  show ?case
  proof (cases "\<exists>kp\<in>set (GetTLSKeyPairs ca). isl (parse (Cert kp))")
    case True
    then have "isl (addKeyPairs parse pool (GetTLSKeyPairs ca))"
      by (rule addKeyPairs_abort)
    moreover from True have "GetTLSKeyPairs ca \<noteq> []" by auto
    ultimately show ?thesis by (auto split: sum.splits)
  next
    case False
    with Cons.prems have "\<exists>ca\<in>set cas. \<exists>kp\<in>set (GetTLSKeyPairs ca). isl (parse (Cert kp))"
      by auto
    then have "\<And>p. isl (addCertAuthorities parse p cas)" by (rule Cons.IH)
    then show ?thesis by (auto split: sum.splits)
  qed
qed

lemma addCertAuthorities_skip:
  "addCertAuthorities parse pool cas =
     addCertAuthorities parse pool (filter (\<lambda>ca. GetTLSKeyPairs ca \<noteq> []) cas)"
  by (induction cas arbitrary: pool) (auto split: sum.splits)

text \<open>
  C8. \<open>CertPoolFromCertAuthorities\<close> gives the same result on a list of CAs as on the
  list without the CAs that have no TLS key pair. When every certificate of the list
  parses it returns a pool, and the certificates in the pool are exactly the parsed
  certificates of the TLS key pairs of the CAs in the list; when some certificate does
  not parse it returns an error. \<open>CertPool\<close> on one CA with no TLS key pair returns a
  bad-parameter error.
\<close>

theorem CertPool_policies:
  "CertPoolFromCertAuthorities parse cas =
     CertPoolFromCertAuthorities parse (filter (\<lambda>ca. GetTLSKeyPairs ca \<noteq> []) cas)
   \<and> ((\<forall>ca\<in>set cas. \<forall>kp\<in>set (GetTLSKeyPairs ca). \<not> isl (parse (Cert kp))) \<longrightarrow>
        (\<exists>pool. CertPoolFromCertAuthorities parse cas = Inr pool \<and>
           set pool = {c. \<exists>ca\<in>set cas. \<exists>kp\<in>set (GetTLSKeyPairs ca). parse (Cert kp) = Inr c}))
   \<and> ((\<exists>ca\<in>set cas. \<exists>kp\<in>set (GetTLSKeyPairs ca). isl (parse (Cert kp))) \<longrightarrow>
        isl (CertPoolFromCertAuthorities parse cas))
   \<and> (GetTLSKeyPairs ca = [] \<longrightarrow>
        CertPool parse ca = Inl (BadParameter ''certificate authority has no TLS certificates''))"
proof (intro conjI impI)
  show "CertPoolFromCertAuthorities parse cas =
     CertPoolFromCertAuthorities parse (filter (\<lambda>ca. GetTLSKeyPairs ca \<noteq> []) cas)"
    unfolding CertPoolFromCertAuthorities_def by (rule addCertAuthorities_skip)
next
  assume ok: "\<forall>ca\<in>set cas. \<forall>kp\<in>set (GetTLSKeyPairs ca). \<not> isl (parse (Cert kp))"
  then obtain pool where p: "addCertAuthorities parse [] cas = Inr pool"
    using addCertAuthorities_total [of cas parse "[]"] by blast
  from addCertAuthorities_Inr [OF p]
  show "\<exists>pool. CertPoolFromCertAuthorities parse cas = Inr pool \<and>
           set pool = {c. \<exists>ca\<in>set cas. \<exists>kp\<in>set (GetTLSKeyPairs ca). parse (Cert kp) = Inr c}"
    using p by (simp add: CertPoolFromCertAuthorities_def)
next
  assume "\<exists>ca\<in>set cas. \<exists>kp\<in>set (GetTLSKeyPairs ca). isl (parse (Cert kp))"
  then show "isl (CertPoolFromCertAuthorities parse cas)"
    unfolding CertPoolFromCertAuthorities_def by (rule addCertAuthorities_abort)
next
  assume "GetTLSKeyPairs ca = []"
  then show "CertPool parse ca = Inl (BadParameter ''certificate authority has no TLS certificates'')"
    by (simp add: CertPool_def)
qed

theorem CertPool_policies_witness:
  "list_all (\<lambda>ca. list_all (\<lambda>kp. \<not> isl (example_parse (Cert kp))) (GetTLSKeyPairs ca))
     [example_host_ca, example_jwt_ca]
   \<and> GetTLSKeyPairs example_jwt_ca = []
   \<and> (\<exists>pool. CertPoolFromCertAuthorities example_parse [example_host_ca, example_jwt_ca] = Inr pool
         \<and> set pool = {''cert-1'', ''cert-2''})
   \<and> CertPool example_parse example_jwt_ca
        = Inl (BadParameter ''certificate authority has no TLS certificates'')
   \<and> (\<exists>ca\<in>set [example_jwt_ca, example_broken_ca].
        \<exists>kp\<in>set (GetTLSKeyPairs ca). isl (example_parse (Cert kp)))
   \<and> isl (CertPoolFromCertAuthorities example_parse [example_jwt_ca, example_broken_ca])"
proof -
  have hyp: "\<forall>ca\<in>set [example_host_ca, example_jwt_ca].
      \<forall>kp\<in>set (GetTLSKeyPairs ca). \<not> isl (example_parse (Cert kp))"
    by (simp add: example_host_ca_def example_jwt_ca_def GetTLSKeyPairs_def example_parse_def)
  have none: "GetTLSKeyPairs example_jwt_ca = []"
    by (simp add: example_jwt_ca_def GetTLSKeyPairs_def)
  have certs: "{c. \<exists>ca\<in>set [example_host_ca, example_jwt_ca].
                  \<exists>kp\<in>set (GetTLSKeyPairs ca). example_parse (Cert kp) = Inr c}
               = {''cert-1'', ''cert-2''}"
    by (auto simp: example_host_ca_def example_jwt_ca_def GetTLSKeyPairs_def example_parse_def)
  have bad: "\<exists>ca\<in>set [example_jwt_ca, example_broken_ca].
        \<exists>kp\<in>set (GetTLSKeyPairs ca). isl (example_parse (Cert kp))"
    by (simp add: example_broken_ca_def example_host_ca_def GetTLSKeyPairs_def example_parse_def)
  note pol = CertPool_policies [of example_parse "[example_host_ca, example_jwt_ca]" example_jwt_ca]
  from pol hyp have "\<exists>pool. CertPoolFromCertAuthorities example_parse [example_host_ca, example_jwt_ca] = Inr pool
         \<and> set pool = {c. \<exists>ca\<in>set [example_host_ca, example_jwt_ca].
                  \<exists>kp\<in>set (GetTLSKeyPairs ca). example_parse (Cert kp) = Inr c}"
    by blast
  then have pool: "\<exists>pool. CertPoolFromCertAuthorities example_parse [example_host_ca, example_jwt_ca] = Inr pool
         \<and> set pool = {''cert-1'', ''cert-2''}"
    by (simp only: certs)
  from pol none have single: "CertPool example_parse example_jwt_ca
        = Inl (BadParameter ''certificate authority has no TLS certificates'')"
    by blast
  from CertPool_policies [of example_parse "[example_jwt_ca, example_broken_ca]" example_jwt_ca] bad
  have abort: "isl (CertPoolFromCertAuthorities example_parse [example_jwt_ca, example_broken_ca])"
    by blast
  from hyp have "list_all (\<lambda>ca. list_all (\<lambda>kp. \<not> isl (example_parse (Cert kp))) (GetTLSKeyPairs ca))
     [example_host_ca, example_jwt_ca]"
    by (simp only: list_all_iff)
  with none pool single bad abort show ?thesis by blast
qed

section \<open>The JWT signer\<close>

text \<open>
  C7. \<open>GetJWTSigner ca clock\<close> returns an error exactly when the CA has no JWT key
  pair, or the private key of its first JWT key pair does not parse, or \<open>jwt.New\<close>
  fails on the configuration made of the clock, the application-token algorithm, the
  CA's cluster name and that parsed private key (and no public key). When it returns a
  key, the key is the one \<open>jwt.New\<close> returns for that configuration: no other key
  pair of the CA is read.
\<close>

theorem GetJWTSigner_first_key_pair:
  "(isl (GetJWTSigner env ca clock) \<longleftrightarrow>
      GetJWTKeyPairs ca = [] \<or>
      (\<exists>pair rest. GetJWTKeyPairs ca = pair # rest \<and>
         (isl (ParsePrivateKey env (PrivateKey pair)) \<or>
          (\<exists>privateKey. ParsePrivateKey env (PrivateKey pair) = Inr privateKey \<and>
             isl (jwt_New env
                    \<lparr>Clock = Some clock, Algorithm = ApplicationTokenAlgorithm env,
                     jwt_ClusterName = GetClusterName ca,
                     jwt_PrivateKey = Some privateKey, jwt_PublicKey = None\<rparr>)))))
   \<and> (\<forall>key. GetJWTSigner env ca clock = Inr key \<longrightarrow>
        (\<exists>pair rest privateKey. GetJWTKeyPairs ca = pair # rest \<and>
           ParsePrivateKey env (PrivateKey pair) = Inr privateKey \<and>
           jwt_New env
             \<lparr>Clock = Some clock, Algorithm = ApplicationTokenAlgorithm env,
              jwt_ClusterName = GetClusterName ca,
              jwt_PrivateKey = Some privateKey, jwt_PublicKey = None\<rparr> = Inr key))"
  by (cases "GetJWTKeyPairs ca")
     (auto simp: GetJWTSigner_def split: sum.splits)

theorem GetJWTSigner_first_key_pair_witness:
  "GetJWTSigner example_deps example_jwt_ca ''clock'' =
     Inr \<lparr>Clock = Some ''clock'', Algorithm = ''RS256'', jwt_ClusterName = ''cluster-x'',
          jwt_PrivateKey = Some ''jwt-priv-1'', jwt_PublicKey = None\<rparr>
   \<and> (\<exists>pair rest privateKey. GetJWTKeyPairs example_jwt_ca = pair # rest \<and>
           ParsePrivateKey example_deps (PrivateKey pair) = Inr privateKey \<and>
           jwt_New example_deps
             \<lparr>Clock = Some ''clock'', Algorithm = ApplicationTokenAlgorithm example_deps,
              jwt_ClusterName = GetClusterName example_jwt_ca,
              jwt_PrivateKey = Some privateKey, jwt_PublicKey = None\<rparr>
            = Inr \<lparr>Clock = Some ''clock'', Algorithm = ''RS256'', jwt_ClusterName = ''cluster-x'',
                  jwt_PrivateKey = Some ''jwt-priv-1'', jwt_PublicKey = None\<rparr>)"
proof -
  have run: "GetJWTSigner example_deps example_jwt_ca ''clock'' =
     Inr \<lparr>Clock = Some ''clock'', Algorithm = ''RS256'', jwt_ClusterName = ''cluster-x'',
          jwt_PrivateKey = Some ''jwt-priv-1'', jwt_PublicKey = None\<rparr>"
    by (simp add: GetJWTSigner_def example_deps_def example_jwt_ca_def GetJWTKeyPairs_def
        GetClusterName_def example_parse_def example_jwt_New_def)
  from GetJWTSigner_first_key_pair [of example_deps example_jwt_ca "''clock''"] run
  show ?thesis by blast
qed

section \<open>Validation\<close>

lemma firstError_None: "firstError parse ks = None \<longleftrightarrow> (\<forall>k\<in>set ks. \<not> isl (parse k))"
  by (induction ks) (auto split: sum.splits)

lemma firstError_Some: "firstError parse ks = Some e \<Longrightarrow> \<exists>k\<in>set ks. parse k = Inl e"
  by (induction ks) (auto split: sum.splits)

lemma example_defaults:
  "CheckAndSetDefaults example_deps example_host_ca = Inr example_host_ca"
  "CheckAndSetDefaults example_deps example_both_ca = Inr example_both_ca"
  "CheckAndSetDefaults example_deps example_broken_ca = Inr example_broken_ca"
  by (simp_all add: example_deps_def spec_CheckAndSetDefaults_def example_both_ca_def
      example_broken_ca_def example_host_ca_def)

lemma example_fields:
  "GetType example_host_ca = HostCA" "GetType example_both_ca = HostCA"
  "GetType example_broken_ca = HostCA"
  "GetRoles example_host_ca = []" "GetRoles example_both_ca = [''admin'']"
  "GetRoleMap example_host_ca = [\<lparr>Remote = ''remote-admin'', Local = [''admin'']\<rparr>]"
  "GetRoleMap example_both_ca = [\<lparr>Remote = ''remote-admin'', Local = [''admin'']\<rparr>]"
  "GetCheckingKeys example_host_ca = [''PEM:ssh-pub-1'']"
  "GetCheckingKeys example_broken_ca = [''PEM:ssh-pub-1'']"
  "GetTLSKeyPairs example_host_ca = [\<lparr>Cert = ''PEM:cert-1'', Key = ''PEM:key-1''\<rparr>,
                             \<lparr>Cert = ''PEM:cert-2'', Key = ''PEM:key-2''\<rparr>]"
  "GetTLSKeyPairs example_broken_ca = [\<lparr>Cert = ''PEM:cert-1'', Key = ''PEM:key-1''\<rparr>,
                         \<lparr>Cert = ''garbage'', Key = ''PEM:key-2''\<rparr>]"
  by (simp_all add: example_both_ca_def example_broken_ca_def example_host_ca_def
      GetType_def GetRoles_def GetRoleMap_def GetCheckingKeys_def GetTLSKeyPairs_def)

lemma example_deps_fields:
  "GetCheckers example_deps = spec_GetCheckers example_parse"
  "GetSigners example_deps = spec_GetSigners example_parsePair"
  "parseRoleMap example_deps = spec_parseRoleMap"
  by (simp_all add: example_deps_def)

lemma checkJWTKeys_loop_cluster_name:
  "GetClusterName c = GetClusterName c' \<Longrightarrow>
     checkJWTKeys_loop env c privateKey pairs = checkJWTKeys_loop env c' privateKey pairs"
  by (induction pairs arbitrary: privateKey) (auto split: sum.splits)

lemma checkJWTKeys_ignores_roles:
  "checkJWTKeys env (c\<lparr>Spec := (Spec c)\<lparr>Roles := r, RoleMap := m\<rparr>\<rparr>) = checkJWTKeys env c"
  using checkJWTKeys_loop_cluster_name
          [of "c\<lparr>Spec := (Spec c)\<lparr>Roles := r, RoleMap := m\<rparr>\<rparr>" c env None "GetJWTKeyPairs c"]
  by (simp add: checkJWTKeys_def GetJWTKeyPairs_def GetClusterName_def)

lemma example_more_fields:
  "CheckAndSetDefaults example_deps example_roles_only_ca = Inr example_roles_only_ca"
  "CheckAndSetDefaults example_deps example_jwt_ca = Inr example_jwt_ca"
  "GetType example_roles_only_ca = HostCA" "GetType example_jwt_ca = JWTSigner"
  "GetRoles example_roles_only_ca = ['''']" "GetRoleMap example_roles_only_ca = []"
  "GetRoles example_broken_ca = []"
  "GetRoleMap example_broken_ca = [\<lparr>Remote = ''remote-admin'', Local = [''admin'']\<rparr>]"
  "GetRoles example_jwt_ca = [''admin'']"
  "GetRoleMap example_jwt_ca = [\<lparr>Remote = ''remote-admin'', Local = [''admin'']\<rparr>]"
  "GetCheckingKeys example_roles_only_ca = [''PEM:ssh-pub-1'']"
  "GetTLSKeyPairs example_roles_only_ca = [\<lparr>Cert = ''PEM:cert-1'', Key = ''PEM:key-1''\<rparr>,
                             \<lparr>Cert = ''PEM:cert-2'', Key = ''PEM:key-2''\<rparr>]"
  by (simp_all add: example_deps_def spec_CheckAndSetDefaults_def example_roles_only_ca_def
      example_broken_ca_def example_host_ca_def example_jwt_ca_def
      GetType_def GetRoles_def GetRoleMap_def GetCheckingKeys_def GetTLSKeyPairs_def)

lemma example_empty_jwt_fields:
  "CheckAndSetDefaults example_deps example_empty_jwt_ca = Inr example_empty_jwt_ca"
  "GetType example_empty_jwt_ca = JWTSigner"
  "GetJWTKeyPairs example_empty_jwt_ca = []"
  by (simp_all add: example_deps_def spec_CheckAndSetDefaults_def example_empty_jwt_ca_def
      example_jwt_ca_def GetType_def GetJWTKeyPairs_def)

lemma example_validations:
  "ValidateCertAuthority example_deps example_jwt_ca = Inr example_jwt_ca"
  "ValidateCertAuthority example_deps example_broken_ca = Inl (LibError ''no PEM data found'')"
  "ValidateCertAuthority example_deps example_roles_only_ca = Inr example_roles_only_ca"
proof -
  show "ValidateCertAuthority example_deps example_jwt_ca = Inr example_jwt_ca"
    by (simp add: example_jwt_ca_def example_deps_def ValidateCertAuthority_def
      spec_CheckAndSetDefaults_def GetType_def checkJWTKeys_def
      GetJWTKeyPairs_def GetClusterName_def example_parse_def example_jwt_New_def Wrap_def)
  show "ValidateCertAuthority example_deps example_broken_ca = Inl (LibError ''no PEM data found'')"
    by (simp add: ValidateCertAuthority_def example_defaults example_fields
        checkUserOrHostCA_def example_deps_fields spec_GetCheckers_def spec_GetSigners_def
        example_parse_def example_parsePair_def Wrap_def)
  show "ValidateCertAuthority example_deps example_roles_only_ca = Inr example_roles_only_ca"
    by (simp add: ValidateCertAuthority_def example_more_fields
        checkUserOrHostCA_def example_deps_fields spec_GetCheckers_def spec_GetSigners_def
        spec_parseRoleMap_def example_parse_def example_parsePair_def Wrap_def)
qed

text \<open>
  C1, as stated, fails, in three ways.
  \<^item> A JWT signer CA with a role list and a role map both non-empty passes validation.
  \<^item> A host CA with the role list cleared and a well-formed role map fails validation,
    on a certificate that does not parse: validation depends on more than the role map.
  \<^item> A host CA with the role map cleared and a role list that holds an empty role name
    passes validation: nothing in validation reads what is in the role list.
\<close>

theorem ValidateCertAuthority_roles_and_role_map_refuted:
  "GetType example_jwt_ca = JWTSigner
   \<and> GetRoles example_jwt_ca \<noteq> [] \<and> GetRoleMap example_jwt_ca \<noteq> []
   \<and> ValidateCertAuthority example_deps example_jwt_ca = Inr example_jwt_ca
   \<and> GetType example_broken_ca = HostCA
   \<and> GetRoles example_broken_ca = []
   \<and> spec_parseRoleMap (GetRoleMap example_broken_ca) = None
   \<and> ValidateCertAuthority example_deps example_broken_ca = Inl (LibError ''no PEM data found'')
   \<and> GetType example_roles_only_ca = HostCA
   \<and> GetRoleMap example_roles_only_ca = []
   \<and> GetRoles example_roles_only_ca = ['''']
   \<and> ValidateCertAuthority example_deps example_roles_only_ca = Inr example_roles_only_ca"
  by (simp add: example_validations example_more_fields example_fields
      spec_parseRoleMap_def checkRoleMapping_def)

text \<open>
  C1, amended. Let the CA's own defaults check accept the CA.
  \<^item> When it leaves the CA with type HostCA or UserCA: validation returns an error when
    the role list and the role map are both non-empty. When the key checks pass (a
    checking key and a TLS key pair are there, \<open>GetCheckers\<close> and \<open>GetSigners\<close>
    return no error), clearing the role list makes the result of validation the result
    of \<open>parseRoleMap\<close> on the role map, and clearing the role map makes it the
    result of \<open>parseRoleMap\<close> on the empty role map, whatever the role list.
  \<^item> When it leaves the CA with type JWTSigner: the result of validation is the
    result of \<open>checkJWTKeys\<close>, which fails when there is no JWT key pair and is the
    same whatever is put for the role list and the role map.
\<close>

theorem ValidateCertAuthority_roles_or_role_map:
  assumes "CheckAndSetDefaults env ca = Inr ca'"
  shows "(GetType ca' = HostCA \<or> GetType ca' = UserCA \<longrightarrow>
            (GetRoles ca' \<noteq> [] \<and> GetRoleMap ca' \<noteq> [] \<longrightarrow>
               isl (ValidateCertAuthority env ca))
          \<and> (GetCheckingKeys ca' \<noteq> [] \<and> GetTLSKeyPairs ca' \<noteq> [] \<and>
             GetCheckers env ca' = None \<and> GetSigners env ca' = None \<and> GetRoles ca' = [] \<longrightarrow>
               ValidateCertAuthority env ca =
                 (case parseRoleMap env (GetRoleMap ca') of
                    Some e \<Rightarrow> Inl e | None \<Rightarrow> Inr ca'))
          \<and> (GetCheckingKeys ca' \<noteq> [] \<and> GetTLSKeyPairs ca' \<noteq> [] \<and>
             GetCheckers env ca' = None \<and> GetSigners env ca' = None \<and> GetRoleMap ca' = [] \<longrightarrow>
               ValidateCertAuthority env ca =
                 (case parseRoleMap env [] of Some e \<Rightarrow> Inl e | None \<Rightarrow> Inr ca')))
    \<and> (GetType ca' = JWTSigner \<longrightarrow>
          ValidateCertAuthority env ca =
            (case checkJWTKeys env ca' of Some e \<Rightarrow> Inl e | None \<Rightarrow> Inr ca')
          \<and> (GetJWTKeyPairs ca' = [] \<longrightarrow>
               ValidateCertAuthority env ca = Inl (BadParameter ''missing JWT CA''))
          \<and> (\<forall>r m. checkJWTKeys env (ca'\<lparr>Spec := (Spec ca')\<lparr>Roles := r, RoleMap := m\<rparr>\<rparr>)
                     = checkJWTKeys env ca'))"
proof (intro conjI impI)
  assume "GetType ca' = HostCA \<or> GetType ca' = UserCA"
  then have val: "ValidateCertAuthority env ca =
      (case checkUserOrHostCA env ca' of Some e \<Rightarrow> Inl e | None \<Rightarrow> Inr ca')"
    using assms by (auto simp: ValidateCertAuthority_def Wrap_def split: option.splits)
  {
    assume "GetRoles ca' \<noteq> [] \<and> GetRoleMap ca' \<noteq> []"
    then show "isl (ValidateCertAuthority env ca)"
      by (auto simp: val checkUserOrHostCA_def split: option.splits)
  }
  {
    assume "GetCheckingKeys ca' \<noteq> [] \<and> GetTLSKeyPairs ca' \<noteq> [] \<and>
             GetCheckers env ca' = None \<and> GetSigners env ca' = None \<and> GetRoles ca' = []"
    then show "ValidateCertAuthority env ca =
                 (case parseRoleMap env (GetRoleMap ca') of
                    Some e \<Rightarrow> Inl e | None \<Rightarrow> Inr ca')"
      by (simp add: val checkUserOrHostCA_def Wrap_def split: option.splits)
  }
  {
    assume "GetCheckingKeys ca' \<noteq> [] \<and> GetTLSKeyPairs ca' \<noteq> [] \<and>
             GetCheckers env ca' = None \<and> GetSigners env ca' = None \<and> GetRoleMap ca' = []"
    then show "ValidateCertAuthority env ca =
                 (case parseRoleMap env [] of Some e \<Rightarrow> Inl e | None \<Rightarrow> Inr ca')"
      by (simp add: val checkUserOrHostCA_def Wrap_def split: option.splits)
  }
next
  assume jwt: "GetType ca' = JWTSigner"
  then show val: "ValidateCertAuthority env ca =
      (case checkJWTKeys env ca' of Some e \<Rightarrow> Inl e | None \<Rightarrow> Inr ca')"
    using assms by (simp add: ValidateCertAuthority_def Wrap_def split: option.splits)
  {
    assume "GetJWTKeyPairs ca' = []"
    then show "ValidateCertAuthority env ca = Inl (BadParameter ''missing JWT CA'')"
      by (simp add: val checkJWTKeys_def)
  }
  show "\<forall>r m. checkJWTKeys env (ca'\<lparr>Spec := (Spec ca')\<lparr>Roles := r, RoleMap := m\<rparr>\<rparr>)
                     = checkJWTKeys env ca'"
    by (simp add: checkJWTKeys_ignores_roles)
qed


theorem ValidateCertAuthority_roles_or_role_map_witness:
  "CheckAndSetDefaults example_deps example_both_ca = Inr example_both_ca
   \<and> GetType example_both_ca = HostCA
   \<and> GetRoles example_both_ca \<noteq> [] \<and> GetRoleMap example_both_ca \<noteq> []
   \<and> isl (ValidateCertAuthority example_deps example_both_ca)
   \<and> CheckAndSetDefaults example_deps example_host_ca = Inr example_host_ca
   \<and> GetType example_host_ca = HostCA
   \<and> GetCheckingKeys example_host_ca \<noteq> [] \<and> GetTLSKeyPairs example_host_ca \<noteq> []
   \<and> GetCheckers example_deps example_host_ca = None
   \<and> GetSigners example_deps example_host_ca = None
   \<and> GetRoles example_host_ca = []
   \<and> parseRoleMap example_deps (GetRoleMap example_host_ca) = None
   \<and> ValidateCertAuthority example_deps example_host_ca = Inr example_host_ca
   \<and> CheckAndSetDefaults example_deps example_roles_only_ca = Inr example_roles_only_ca
   \<and> GetType example_roles_only_ca = HostCA
   \<and> GetCheckingKeys example_roles_only_ca \<noteq> [] \<and> GetTLSKeyPairs example_roles_only_ca \<noteq> []
   \<and> GetCheckers example_deps example_roles_only_ca = None
   \<and> GetSigners example_deps example_roles_only_ca = None
   \<and> GetRoleMap example_roles_only_ca = []
   \<and> parseRoleMap example_deps [] = None
   \<and> ValidateCertAuthority example_deps example_roles_only_ca = Inr example_roles_only_ca
   \<and> CheckAndSetDefaults example_deps example_jwt_ca = Inr example_jwt_ca
   \<and> GetType example_jwt_ca = JWTSigner
   \<and> checkJWTKeys example_deps example_jwt_ca = None
   \<and> ValidateCertAuthority example_deps example_jwt_ca = Inr example_jwt_ca
   \<and> checkJWTKeys example_deps
         (example_jwt_ca\<lparr>Spec := (Spec example_jwt_ca)\<lparr>Roles := [], RoleMap := []\<rparr>\<rparr>) = None
   \<and> CheckAndSetDefaults example_deps example_empty_jwt_ca = Inr example_empty_jwt_ca
   \<and> GetType example_empty_jwt_ca = JWTSigner
   \<and> GetJWTKeyPairs example_empty_jwt_ca = []
   \<and> ValidateCertAuthority example_deps example_empty_jwt_ca
        = Inl (BadParameter ''missing JWT CA'')"
proof -
  have keys: "GetCheckers example_deps example_host_ca = None"
    "GetSigners example_deps example_host_ca = None"
    "GetCheckers example_deps example_roles_only_ca = None"
    "GetSigners example_deps example_roles_only_ca = None"
    by (simp_all add: example_deps_fields spec_GetCheckers_def spec_GetSigners_def
        example_fields example_more_fields example_parse_def example_parsePair_def)
  have rm: "parseRoleMap example_deps (GetRoleMap example_host_ca) = None"
    "parseRoleMap example_deps [] = None"
    by (simp_all add: example_deps_fields example_fields spec_parseRoleMap_def
        checkRoleMapping_def)
  have jwt: "checkJWTKeys example_deps example_jwt_ca = None"
    by (simp add: example_jwt_ca_def example_deps_def checkJWTKeys_def
      GetJWTKeyPairs_def GetClusterName_def example_parse_def example_jwt_New_def Wrap_def)
  have nonempty: "GetCheckingKeys example_host_ca \<noteq> []" "GetTLSKeyPairs example_host_ca \<noteq> []"
    "GetCheckingKeys example_roles_only_ca \<noteq> []" "GetTLSKeyPairs example_roles_only_ca \<noteq> []"
    "GetRoles example_both_ca \<noteq> []" "GetRoleMap example_both_ca \<noteq> []"
    by (simp_all add: example_fields example_more_fields)
  from ValidateCertAuthority_roles_or_role_map [OF example_defaults(2)]
    example_fields(2) nonempty
  have both: "isl (ValidateCertAuthority example_deps example_both_ca)"
    by blast
  from ValidateCertAuthority_roles_or_role_map [OF example_defaults(1)]
    example_fields(1) example_fields(4) nonempty keys
  have "ValidateCertAuthority example_deps example_host_ca =
          (case parseRoleMap example_deps (GetRoleMap example_host_ca) of
             Some e \<Rightarrow> Inl e | None \<Rightarrow> Inr example_host_ca)"
    by blast
  then have one: "ValidateCertAuthority example_deps example_host_ca = Inr example_host_ca"
    by (simp add: rm)
  from ValidateCertAuthority_roles_or_role_map [OF example_more_fields(1)]
    example_more_fields(3) example_more_fields(6) nonempty keys
  have "ValidateCertAuthority example_deps example_roles_only_ca =
          (case parseRoleMap example_deps [] of
             Some e \<Rightarrow> Inl e | None \<Rightarrow> Inr example_roles_only_ca)"
    by blast
  then have other: "ValidateCertAuthority example_deps example_roles_only_ca
                      = Inr example_roles_only_ca"
    by (simp add: rm)
  note j = ValidateCertAuthority_roles_or_role_map [OF example_more_fields(2)]
  from j example_more_fields(4)
  have "ValidateCertAuthority example_deps example_jwt_ca =
          (case checkJWTKeys example_deps example_jwt_ca of
             Some e \<Rightarrow> Inl e | None \<Rightarrow> Inr example_jwt_ca)"
    by blast
  then have signer: "ValidateCertAuthority example_deps example_jwt_ca = Inr example_jwt_ca"
    by (simp add: jwt)
  from j example_more_fields(4)
  have "checkJWTKeys example_deps
         (example_jwt_ca\<lparr>Spec := (Spec example_jwt_ca)\<lparr>Roles := [], RoleMap := []\<rparr>\<rparr>)
        = checkJWTKeys example_deps example_jwt_ca"
    by blast
  then have cleared: "checkJWTKeys example_deps
         (example_jwt_ca\<lparr>Spec := (Spec example_jwt_ca)\<lparr>Roles := [], RoleMap := []\<rparr>\<rparr>) = None"
    by (simp only: jwt)
  from ValidateCertAuthority_roles_or_role_map [OF example_empty_jwt_fields(1)]
    example_empty_jwt_fields(2,3)
  have missing: "ValidateCertAuthority example_deps example_empty_jwt_ca
                   = Inl (BadParameter ''missing JWT CA'')"
    by blast
  from both one other signer cleared missing keys rm jwt nonempty
    example_defaults example_fields(1,2,4) example_more_fields(1,2,3,4,6)
    example_empty_jwt_fields
  show ?thesis by blast
qed

text \<open>
  C4. With \<open>GetCheckers\<close> and \<open>GetSigners\<close> as the spec describes them (they parse
  every checking key, and every TLS key pair, and return the first parse error), and
  for a CA that its own defaults check leaves with type HostCA or UserCA, validation
  \<^item> fails when there is no checking key, and when there is no TLS key pair;
  \<^item> otherwise returns the parse error of a checking key when one does not parse;
  \<^item> otherwise returns the parse error of a TLS key pair when one does not parse;
  \<^item> otherwise fails when role list and role map are both non-empty, and else returns
    what \<open>parseRoleMap\<close> returns on the role map.
\<close>

theorem ValidateCertAuthority_UserOrHostCA_steps:
  assumes defaults: "CheckAndSetDefaults env ca = Inr ca'"
    and type: "GetType ca' = HostCA \<or> GetType ca' = UserCA"
    and checkers: "GetCheckers env = spec_GetCheckers parseKey"
    and signers: "GetSigners env = spec_GetSigners parsePair"
  shows "(GetCheckingKeys ca' = [] \<longrightarrow>
            ValidateCertAuthority env ca =
              Inl (BadParameter ''certificate authority missing SSH public keys''))
    \<and> (GetCheckingKeys ca' \<noteq> [] \<and> GetTLSKeyPairs ca' = [] \<longrightarrow>
            ValidateCertAuthority env ca =
              Inl (BadParameter ''certificate authority missing TLS key pairs''))
    \<and> (GetCheckingKeys ca' \<noteq> [] \<and> GetTLSKeyPairs ca' \<noteq> [] \<and>
        (\<exists>k\<in>set (GetCheckingKeys ca'). isl (parseKey k)) \<longrightarrow>
          (\<exists>k\<in>set (GetCheckingKeys ca'). \<exists>e. parseKey k = Inl e \<and>
             ValidateCertAuthority env ca = Inl e))
    \<and> (GetCheckingKeys ca' \<noteq> [] \<and> GetTLSKeyPairs ca' \<noteq> [] \<and>
        (\<forall>k\<in>set (GetCheckingKeys ca'). \<not> isl (parseKey k)) \<and>
        (\<exists>kp\<in>set (GetTLSKeyPairs ca'). isl (parsePair kp)) \<longrightarrow>
          (\<exists>kp\<in>set (GetTLSKeyPairs ca'). \<exists>e. parsePair kp = Inl e \<and>
             ValidateCertAuthority env ca = Inl e))
    \<and> (GetCheckingKeys ca' \<noteq> [] \<and> GetTLSKeyPairs ca' \<noteq> [] \<and>
        (\<forall>k\<in>set (GetCheckingKeys ca'). \<not> isl (parseKey k)) \<and>
        (\<forall>kp\<in>set (GetTLSKeyPairs ca'). \<not> isl (parsePair kp)) \<longrightarrow>
          ValidateCertAuthority env ca =
            (if GetRoles ca' \<noteq> [] \<and> GetRoleMap ca' \<noteq> [] then
               Inl (BadParameter ''should set either 'roles' or 'role_map', not both'')
             else case parseRoleMap env (GetRoleMap ca') of
                    Some e \<Rightarrow> Inl e | None \<Rightarrow> Inr ca'))"
proof -
  have val: "ValidateCertAuthority env ca =
      (case checkUserOrHostCA env ca' of Some e \<Rightarrow> Inl e | None \<Rightarrow> Inr ca')"
    using defaults type by (auto simp: ValidateCertAuthority_def Wrap_def split: option.splits)
  have chk: "GetCheckers env ca' = firstError parseKey (GetCheckingKeys ca')"
    by (simp add: checkers spec_GetCheckers_def)
  have sgn: "GetSigners env ca' = firstError parsePair (GetTLSKeyPairs ca')"
    by (simp add: signers spec_GetSigners_def)
  show ?thesis
  proof (intro conjI impI)
    assume "GetCheckingKeys ca' = []"
    then show "ValidateCertAuthority env ca =
              Inl (BadParameter ''certificate authority missing SSH public keys'')"
      by (simp add: val checkUserOrHostCA_def)
  next
    assume "GetCheckingKeys ca' \<noteq> [] \<and> GetTLSKeyPairs ca' = []"
    then show "ValidateCertAuthority env ca =
              Inl (BadParameter ''certificate authority missing TLS key pairs'')"
      by (simp add: val checkUserOrHostCA_def)
  next
    assume a: "GetCheckingKeys ca' \<noteq> [] \<and> GetTLSKeyPairs ca' \<noteq> [] \<and>
        (\<exists>k\<in>set (GetCheckingKeys ca'). isl (parseKey k))"
    then have "firstError parseKey (GetCheckingKeys ca') \<noteq> None"
      by (simp add: firstError_None)
    then obtain e where e: "firstError parseKey (GetCheckingKeys ca') = Some e" by auto
    from firstError_Some [OF e] obtain k where
      "k \<in> set (GetCheckingKeys ca')" "parseKey k = Inl e" by auto
    moreover have "ValidateCertAuthority env ca = Inl e"
      using a e by (simp add: val checkUserOrHostCA_def chk Wrap_def)
    ultimately show "\<exists>k\<in>set (GetCheckingKeys ca'). \<exists>e. parseKey k = Inl e \<and>
             ValidateCertAuthority env ca = Inl e"
      by blast
  next
    assume a: "GetCheckingKeys ca' \<noteq> [] \<and> GetTLSKeyPairs ca' \<noteq> [] \<and>
        (\<forall>k\<in>set (GetCheckingKeys ca'). \<not> isl (parseKey k)) \<and>
        (\<exists>kp\<in>set (GetTLSKeyPairs ca'). isl (parsePair kp))"
    then have ok: "firstError parseKey (GetCheckingKeys ca') = None"
      by (simp add: firstError_None)
    from a have "firstError parsePair (GetTLSKeyPairs ca') \<noteq> None"
      by (simp add: firstError_None)
    then obtain e where e: "firstError parsePair (GetTLSKeyPairs ca') = Some e" by auto
    from firstError_Some [OF e] obtain kp where
      "kp \<in> set (GetTLSKeyPairs ca')" "parsePair kp = Inl e" by auto
    moreover have "ValidateCertAuthority env ca = Inl e"
      using a ok e by (simp add: val checkUserOrHostCA_def chk sgn Wrap_def)
    ultimately show "\<exists>kp\<in>set (GetTLSKeyPairs ca'). \<exists>e. parsePair kp = Inl e \<and>
             ValidateCertAuthority env ca = Inl e"
      by blast
  next
    assume a: "GetCheckingKeys ca' \<noteq> [] \<and> GetTLSKeyPairs ca' \<noteq> [] \<and>
        (\<forall>k\<in>set (GetCheckingKeys ca'). \<not> isl (parseKey k)) \<and>
        (\<forall>kp\<in>set (GetTLSKeyPairs ca'). \<not> isl (parsePair kp))"
    then have ok: "firstError parseKey (GetCheckingKeys ca') = None"
      "firstError parsePair (GetTLSKeyPairs ca') = None"
      by (simp_all add: firstError_None)
    show "ValidateCertAuthority env ca =
            (if GetRoles ca' \<noteq> [] \<and> GetRoleMap ca' \<noteq> [] then
               Inl (BadParameter ''should set either 'roles' or 'role_map', not both'')
             else case parseRoleMap env (GetRoleMap ca') of
                    Some e \<Rightarrow> Inl e | None \<Rightarrow> Inr ca')"
      using a ok by (simp add: val checkUserOrHostCA_def chk sgn Wrap_def split: option.splits)
  qed
qed

theorem ValidateCertAuthority_UserOrHostCA_steps_witness:
  "CheckAndSetDefaults example_deps example_broken_ca = Inr example_broken_ca
   \<and> GetType example_broken_ca = HostCA
   \<and> GetCheckers example_deps = spec_GetCheckers example_parse
   \<and> GetSigners example_deps = spec_GetSigners example_parsePair
   \<and> GetCheckingKeys example_broken_ca \<noteq> [] \<and> GetTLSKeyPairs example_broken_ca \<noteq> []
   \<and> list_all (\<lambda>k. \<not> isl (example_parse k)) (GetCheckingKeys example_broken_ca)
   \<and> (\<exists>kp\<in>set (GetTLSKeyPairs example_broken_ca). isl (example_parsePair kp))
   \<and> (\<exists>kp\<in>set (GetTLSKeyPairs example_broken_ca). \<exists>e. example_parsePair kp = Inl e \<and>
         ValidateCertAuthority example_deps example_broken_ca = Inl e)
   \<and> CheckAndSetDefaults example_deps example_host_ca = Inr example_host_ca
   \<and> GetType example_host_ca = HostCA
   \<and> GetCheckingKeys example_host_ca \<noteq> [] \<and> GetTLSKeyPairs example_host_ca \<noteq> []
   \<and> list_all (\<lambda>k. \<not> isl (example_parse k)) (GetCheckingKeys example_host_ca)
   \<and> list_all (\<lambda>kp. \<not> isl (example_parsePair kp)) (GetTLSKeyPairs example_host_ca)
   \<and> ValidateCertAuthority example_deps example_host_ca = Inr example_host_ca"
proof -
  have h1: "GetCheckingKeys example_broken_ca \<noteq> [] \<and> GetTLSKeyPairs example_broken_ca \<noteq> []
     \<and> (\<forall>k\<in>set (GetCheckingKeys example_broken_ca). \<not> isl (example_parse k))
     \<and> (\<exists>kp\<in>set (GetTLSKeyPairs example_broken_ca). isl (example_parsePair kp))"
    by (simp add: example_fields example_parse_def example_parsePair_def)
  have h2: "GetCheckingKeys example_host_ca \<noteq> [] \<and> GetTLSKeyPairs example_host_ca \<noteq> []
     \<and> (\<forall>k\<in>set (GetCheckingKeys example_host_ca). \<not> isl (example_parse k))
     \<and> (\<forall>kp\<in>set (GetTLSKeyPairs example_host_ca). \<not> isl (example_parsePair kp))"
    by (simp add: example_fields example_parse_def example_parsePair_def)
  have rm: "parseRoleMap example_deps (GetRoleMap example_host_ca) = None"
    by (simp add: example_deps_fields example_fields spec_parseRoleMap_def checkRoleMapping_def)
  have ty: "GetType example_broken_ca = HostCA \<or> GetType example_broken_ca = UserCA"
    "GetType example_host_ca = HostCA \<or> GetType example_host_ca = UserCA"
    by (simp_all add: example_fields)
  from ValidateCertAuthority_UserOrHostCA_steps
         [OF example_defaults(3) ty(1) example_deps_fields(1) example_deps_fields(2)] h1
  have broken: "\<exists>kp\<in>set (GetTLSKeyPairs example_broken_ca). \<exists>e. example_parsePair kp = Inl e \<and>
         ValidateCertAuthority example_deps example_broken_ca = Inl e"
    by blast
  from ValidateCertAuthority_UserOrHostCA_steps
         [OF example_defaults(1) ty(2) example_deps_fields(1) example_deps_fields(2)] h2
  have "ValidateCertAuthority example_deps example_host_ca =
            (if GetRoles example_host_ca \<noteq> [] \<and> GetRoleMap example_host_ca \<noteq> [] then
               Inl (BadParameter ''should set either 'roles' or 'role_map', not both'')
             else case parseRoleMap example_deps (GetRoleMap example_host_ca) of
                    Some e \<Rightarrow> Inl e | None \<Rightarrow> Inr example_host_ca)"
    by blast
  then have good: "ValidateCertAuthority example_deps example_host_ca = Inr example_host_ca"
    using rm by (simp add: example_fields)
  from h1 h2 broken good example_defaults example_fields(1,3) example_deps_fields
  show ?thesis unfolding list_all_iff by blast
qed

section \<open>Unmarshalling\<close>

lemma CollectOptions_examples:
  "CollectOptions [] = Inr \<lparr>cfg_ID = 0, cfg_Expires = 0, cfg_PreserveResourceID = False\<rparr>"
  "CollectOptions [WithExpires t] = Inr \<lparr>cfg_ID = 0, cfg_Expires = t, cfg_PreserveResourceID = False\<rparr>"
  "CollectOptions [WithResourceID i] = Inr \<lparr>cfg_ID = i, cfg_Expires = 0, cfg_PreserveResourceID = False\<rparr>"
  "CollectOptions [PreserveResourceID] = Inr \<lparr>cfg_ID = 0, cfg_Expires = 0, cfg_PreserveResourceID = True\<rparr>"
  by (simp_all add: CollectOptions_def WithExpires_def WithResourceID_def PreserveResourceID_def)

lemma example_decode:
  "FastUnmarshal_ResourceHeader example_codec example_ca_bytes = Inr (header_of example_host_ca)"
  "FastUnmarshal_CertAuthorityV2 example_codec example_ca_bytes = Inr example_host_ca"
  "FastUnmarshal_ClusterNameV2 example_codec example_cn_bytes = Inr example_cluster_name"
  "FastMarshal_CertAuthorityV2 example_codec example_host_ca = Inr example_ca_bytes"
  "FastMarshal_CertAuthorityV2 example_codec (SetResourceID example_host_ca 0) = Inr example_ca_bytes_0"
  "FastMarshal_ClusterNameV2 example_codec (cn_SetResourceID example_cluster_name 0) = Inr example_cn_bytes_0"
  by (simp_all add: example_codec_def example_decode_header_def example_decode_ca_def
      example_decode_cn_def example_encode_ca_def example_encode_cn_def
      example_ca_bytes_def example_ca_bytes_0_def example_cn_bytes_def example_cn_bytes_0_def
      example_host_ca_def example_cluster_name_def SetResourceID_def cn_SetResourceID_def)

lemma example_host_ca_valid:
  "ValidateCertAuthority example_deps example_host_ca = Inr example_host_ca"
  by (simp add: ValidateCertAuthority_def example_deps_def spec_CheckAndSetDefaults_def
      example_host_ca_def GetType_def checkUserOrHostCA_def GetCheckingKeys_def
      GetTLSKeyPairs_def GetRoles_def GetRoleMap_def spec_GetCheckers_def spec_GetSigners_def
      spec_parseRoleMap_def checkRoleMapping_def example_parse_def example_parsePair_def)

text \<open>
  A buffer whose header decodes to a version other than \<open>V2\<close> is refused by
  \<open>UnmarshalCertAuthority\<close>, with the unsupported-version error when the options
  could be collected.
\<close>

lemma UnmarshalCertAuthority_unsupported_version:
  assumes "FastUnmarshal_ResourceHeader js bs = Inr h" and "rh_Version h \<noteq> V2"
  shows "isl (UnmarshalCertAuthority env js bs opts)"
    and "CollectOptions opts = Inr cfg \<Longrightarrow>
         UnmarshalCertAuthority env js bs opts =
           Inl (BadParameter (''cert authority resource version '' @ rh_Version h
                                @ '' is not supported''))"
  using assms by (auto simp: UnmarshalCertAuthority_def split: sum.splits)

text \<open>
  \<open>UnmarshalClusterName\<close> does not read the header: whatever the version, it returns
  the decoded cluster name when the cluster name's own check accepts it.
\<close>

lemma UnmarshalClusterName_any_version:
  assumes "bs \<noteq> []" and "CollectOptions opts = Inr cfg"
    and "FastUnmarshal_ClusterNameV2 js bs = Inr c"
    and "cn_CheckAndSetDefaults env c = Inr c'"
  shows "\<exists>r. UnmarshalClusterName env js bs opts = Inr r \<and> cn_Version r = cn_Version c'"
  using assms
  by (simp add: UnmarshalClusterName_def Let_def cn_SetResourceID_def cn_SetExpiry_def)

text \<open>
  C2 asks both \<open>UnmarshalCertAuthority\<close> and \<open>UnmarshalClusterName\<close> to fail with an
  unsupported-version error on every buffer whose header declares a version other than
  "2". The code at such a buffer: the header of the buffer below decodes to version
  "99", and \<open>UnmarshalClusterName\<close> returns the cluster name it decodes from it.
\<close>

theorem UnmarshalClusterName_version_99:
  "FastUnmarshal_ResourceHeader example_codec example_cn_bytes_99
     = Inr (cn_header_of example_cluster_name_99)
   \<and> rh_Version (cn_header_of example_cluster_name_99) = ''99''
   \<and> ''99'' \<noteq> V2
   \<and> UnmarshalClusterName example_deps example_codec example_cn_bytes_99 []
       = Inr example_cluster_name_99"
  by (simp add: UnmarshalClusterName_def example_codec_def example_deps_def
      example_decode_header_def example_decode_ca_def example_decode_cn_def
      example_cn_bytes_99_def example_cn_bytes_def example_cn_bytes_0_def
      example_ca_bytes_def example_ca_bytes_0_def
      cn_header_of_def example_cluster_name_99_def V2_def CollectOptions_examples
      spec_cn_CheckAndSetDefaults_def IsZero_def)

text \<open>
  The overrides that the code applies: both unmarshal functions stamp a non-zero
  resource ID, after validation; \<open>UnmarshalClusterName\<close> stamps a non-zero expiry;
  \<open>UnmarshalCertAuthority\<close> returns the same whatever the expiry option.
\<close>

lemma UnmarshalCertAuthority_ignores_cfg_Expires:
  assumes "CollectOptions opts = Inr cfg" and "CollectOptions opts' = Inr (cfg\<lparr>cfg_Expires := t\<rparr>)"
  shows "UnmarshalCertAuthority env js bs opts' = UnmarshalCertAuthority env js bs opts"
  using assms by (simp add: UnmarshalCertAuthority_def split: sum.splits)

lemma UnmarshalCertAuthority_stamps_ID:
  assumes "CollectOptions opts = Inr cfg" and "cfg_ID cfg \<noteq> 0"
    and "UnmarshalCertAuthority env js bs opts = Inr ca"
  shows "GetResourceID ca = cfg_ID cfg"
  using assms
  by (auto simp: UnmarshalCertAuthority_def GetResourceID_def SetResourceID_def
      split: sum.splits if_splits)

lemma UnmarshalClusterName_stamps:
  assumes "CollectOptions opts = Inr cfg"
    and "UnmarshalClusterName env js bs opts = Inr c"
  shows "cfg_ID cfg \<noteq> 0 \<Longrightarrow> ID (cn_Metadata c) = cfg_ID cfg"
    and "\<not> IsZero (cfg_Expires cfg) \<Longrightarrow> Expires (cn_Metadata c) = Some (cfg_Expires cfg)"
  using assms
  by (auto simp: UnmarshalClusterName_def cn_SetResourceID_def cn_SetExpiry_def Let_def
      split: sum.splits if_splits)

text \<open>
  C3 asks the object returned by a successful unmarshal, of a CA as of a cluster name,
  to carry the expiry that the caller gave as an option. The code at such a call:
  with the option \<open>WithExpires 1700000000\<close>, \<open>UnmarshalCertAuthority\<close> returns the
  decoded CA with the expiry it was decoded with (none), where \<open>UnmarshalClusterName\<close>
  returns the decoded cluster name with the expiry of the option.
\<close>

theorem UnmarshalCertAuthority_drops_expiry:
  "CollectOptions [WithExpires 1700000000]
     = Inr \<lparr>cfg_ID = 0, cfg_Expires = 1700000000, cfg_PreserveResourceID = False\<rparr>
   \<and> UnmarshalCertAuthority example_deps example_codec example_ca_bytes [WithExpires 1700000000]
       = Inr example_host_ca
   \<and> Expires (Metadata example_host_ca) = None
   \<and> UnmarshalClusterName example_deps example_codec example_cn_bytes [WithExpires 1700000000]
       = Inr (cn_SetExpiry example_cluster_name 1700000000)
   \<and> Expires (cn_Metadata (cn_SetExpiry example_cluster_name 1700000000)) = Some 1700000000"
proof -
  have ca: "UnmarshalCertAuthority example_deps example_codec example_ca_bytes
              [WithExpires 1700000000] = Inr example_host_ca"
    by (simp add: UnmarshalCertAuthority_def CollectOptions_examples example_decode
        header_of_def example_host_ca_valid)
       (simp add: example_host_ca_def)
  have cn: "UnmarshalClusterName example_deps example_codec example_cn_bytes
              [WithExpires 1700000000] = Inr (cn_SetExpiry example_cluster_name 1700000000)"
    by (simp add: UnmarshalClusterName_def CollectOptions_examples example_decode IsZero_def)
       (simp add: example_cn_bytes_def example_deps_def spec_cn_CheckAndSetDefaults_def
        example_cluster_name_def Let_def IsZero_def)
  show ?thesis
    by (simp add: ca cn CollectOptions_examples)
       (simp add: example_host_ca_def cn_SetExpiry_def)
qed

section \<open>Marshalling\<close>

lemma MarshalCertAuthority_frame:
  "take (length st) (snd (MarshalCertAuthority js st certAuthority opts)) = st"
  by (auto simp: MarshalCertAuthority_def new_def SetResourceID_at_def load_def Let_def
      split: sum.splits CertAuthority.splits option.splits)

lemma MarshalClusterName_frame:
  "take (length st) (snd (MarshalClusterName js st clusterName opts)) = st"
  by (auto simp: MarshalClusterName_def new_def cn_SetResourceID_at_def load_def Let_def
      split: sum.splits ClusterName.splits option.splits)

lemma MarshalCertAuthority_zero_ID:
  assumes "CollectOptions opts = Inr cfg" and "\<not> cfg_PreserveResourceID cfg"
    and "load st p = Some ca" and "GetVersion ca = V2"
  shows "MarshalCertAuthority js st (CertAuthorityV2_ptr p) opts =
           (FastMarshal_CertAuthorityV2 js (SetResourceID ca 0), st @ [SetResourceID ca 0])"
  using assms
  by (simp add: MarshalCertAuthority_def new_def SetResourceID_at_def load_def)

lemma MarshalClusterName_zero_ID:
  assumes "CollectOptions opts = Inr cfg" and "\<not> cfg_PreserveResourceID cfg"
    and "load st p = Some c" and "cn_Version c = V2"
  shows "MarshalClusterName js st (ClusterNameV2_ptr p) opts =
           (FastMarshal_ClusterNameV2 js (cn_SetResourceID c 0), st @ [cn_SetResourceID c 0])"
  using assms
  by (simp add: MarshalClusterName_def new_def cn_SetResourceID_at_def load_def)

lemma load_append: "load st p = Some v \<Longrightarrow> load (st @ extra) p = Some v"
  by (auto simp: load_def nth_append split: if_splits)

lemma example_stores:
  "load [example_host_ca] 0 = Some example_host_ca"
  "load [example_cluster_name] 0 = Some example_cluster_name"
  "GetVersion example_host_ca = V2"
  "cn_Version example_cluster_name = V2"
  by (simp_all add: load_def GetVersion_def example_host_ca_def example_cluster_name_def)

text \<open>
  C5. Whatever the argument and the options, the store after \<open>MarshalCertAuthority\<close>
  (and after \<open>MarshalClusterName\<close>) is the store before the call, followed at most by
  new cells: no object of the caller is written to. For a pointer to a CA (a cluster
  name) of version \<open>V2\<close> and options without \<open>PreserveResourceID\<close>, what is
  serialized is the object with resource ID zero, which is the same whatever resource
  ID the object has, and the cell of the object still holds the object, resource ID
  included.
\<close>

theorem Marshal_zeroes_ID_on_a_copy:
  "take (length st) (snd (MarshalCertAuthority js st certAuthority opts)) = st
   \<and> take (length cst) (snd (MarshalClusterName js cst clusterName opts)) = cst
   \<and> (CollectOptions opts = Inr cfg \<and> \<not> cfg_PreserveResourceID cfg \<and>
      load st p = Some ca \<and> GetVersion ca = V2 \<longrightarrow>
        fst (MarshalCertAuthority js st (CertAuthorityV2_ptr p) opts)
          = FastMarshal_CertAuthorityV2 js (SetResourceID ca 0)
        \<and> fst (MarshalCertAuthority js st (CertAuthorityV2_ptr p) opts)
          = FastMarshal_CertAuthorityV2 js (SetResourceID (SetResourceID ca i) 0)
        \<and> load (snd (MarshalCertAuthority js st (CertAuthorityV2_ptr p) opts)) p = Some ca)
   \<and> (CollectOptions opts = Inr cfg \<and> \<not> cfg_PreserveResourceID cfg \<and>
      load cst q = Some c \<and> cn_Version c = V2 \<longrightarrow>
        fst (MarshalClusterName js cst (ClusterNameV2_ptr q) opts)
          = FastMarshal_ClusterNameV2 js (cn_SetResourceID c 0)
        \<and> fst (MarshalClusterName js cst (ClusterNameV2_ptr q) opts)
          = FastMarshal_ClusterNameV2 js (cn_SetResourceID (cn_SetResourceID c i) 0)
        \<and> load (snd (MarshalClusterName js cst (ClusterNameV2_ptr q) opts)) q = Some c)"
proof (intro conjI impI)
  show "take (length st) (snd (MarshalCertAuthority js st certAuthority opts)) = st"
    by (rule MarshalCertAuthority_frame)
  show "take (length cst) (snd (MarshalClusterName js cst clusterName opts)) = cst"
    by (rule MarshalClusterName_frame)
next
  assume a: "CollectOptions opts = Inr cfg \<and> \<not> cfg_PreserveResourceID cfg \<and>
      load st p = Some ca \<and> GetVersion ca = V2"
  then have m: "MarshalCertAuthority js st (CertAuthorityV2_ptr p) opts =
           (FastMarshal_CertAuthorityV2 js (SetResourceID ca 0), st @ [SetResourceID ca 0])"
    by (simp add: MarshalCertAuthority_zero_ID)
  show "fst (MarshalCertAuthority js st (CertAuthorityV2_ptr p) opts)
          = FastMarshal_CertAuthorityV2 js (SetResourceID ca 0)"
    by (simp add: m)
  show "fst (MarshalCertAuthority js st (CertAuthorityV2_ptr p) opts)
          = FastMarshal_CertAuthorityV2 js (SetResourceID (SetResourceID ca i) 0)"
    by (simp add: m SetResourceID_def)
  show "load (snd (MarshalCertAuthority js st (CertAuthorityV2_ptr p) opts)) p = Some ca"
    using a by (simp add: m load_append)
next
  assume a: "CollectOptions opts = Inr cfg \<and> \<not> cfg_PreserveResourceID cfg \<and>
      load cst q = Some c \<and> cn_Version c = V2"
  then have m: "MarshalClusterName js cst (ClusterNameV2_ptr q) opts =
           (FastMarshal_ClusterNameV2 js (cn_SetResourceID c 0), cst @ [cn_SetResourceID c 0])"
    by (simp add: MarshalClusterName_zero_ID)
  show "fst (MarshalClusterName js cst (ClusterNameV2_ptr q) opts)
          = FastMarshal_ClusterNameV2 js (cn_SetResourceID c 0)"
    by (simp add: m)
  show "fst (MarshalClusterName js cst (ClusterNameV2_ptr q) opts)
          = FastMarshal_ClusterNameV2 js (cn_SetResourceID (cn_SetResourceID c i) 0)"
    by (simp add: m cn_SetResourceID_def)
  show "load (snd (MarshalClusterName js cst (ClusterNameV2_ptr q) opts)) q = Some c"
    using a by (simp add: m load_append)
qed

theorem Marshal_zeroes_ID_on_a_copy_witness:
  "CollectOptions [] = Inr \<lparr>cfg_ID = 0, cfg_Expires = 0, cfg_PreserveResourceID = False\<rparr>
   \<and> \<not> cfg_PreserveResourceID \<lparr>cfg_ID = 0, cfg_Expires = 0, cfg_PreserveResourceID = False\<rparr>
   \<and> load [example_host_ca] 0 = Some example_host_ca
   \<and> GetVersion example_host_ca = V2
   \<and> GetResourceID example_host_ca = 7
   \<and> fst (MarshalCertAuthority example_codec [example_host_ca] (CertAuthorityV2_ptr 0) [])
        = Inr example_ca_bytes_0
   \<and> load (snd (MarshalCertAuthority example_codec [example_host_ca] (CertAuthorityV2_ptr 0) [])) 0
        = Some example_host_ca
   \<and> load [example_cluster_name] 0 = Some example_cluster_name
   \<and> cn_Version example_cluster_name = V2
   \<and> fst (MarshalClusterName example_codec [example_cluster_name] (ClusterNameV2_ptr 0) [])
        = Inr example_cn_bytes_0
   \<and> load (snd (MarshalClusterName example_codec [example_cluster_name] (ClusterNameV2_ptr 0) [])) 0
        = Some example_cluster_name"
proof -
  have pre: "\<not> cfg_PreserveResourceID \<lparr>cfg_ID = 0, cfg_Expires = 0, cfg_PreserveResourceID = False\<rparr>"
    by simp
  have rid: "GetResourceID example_host_ca = 7"
    by (simp add: GetResourceID_def example_host_ca_def)
  note inst = Marshal_zeroes_ID_on_a_copy
      [of "[example_host_ca]" example_codec "CertAuthorityV2_ptr 0" "[]"
          "[example_cluster_name]" "ClusterNameV2_ptr 0"
          "\<lparr>cfg_ID = 0, cfg_Expires = 0, cfg_PreserveResourceID = False\<rparr>"
          0 example_host_ca 7 0 example_cluster_name]
  from inst CollectOptions_examples(1) pre example_stores
  have ca: "fst (MarshalCertAuthority example_codec [example_host_ca] (CertAuthorityV2_ptr 0) [])
          = FastMarshal_CertAuthorityV2 example_codec (SetResourceID example_host_ca 0)"
    "load (snd (MarshalCertAuthority example_codec [example_host_ca] (CertAuthorityV2_ptr 0) [])) 0
        = Some example_host_ca"
    by blast+
  from inst CollectOptions_examples(1) pre example_stores
  have cn: "fst (MarshalClusterName example_codec [example_cluster_name] (ClusterNameV2_ptr 0) [])
          = FastMarshal_ClusterNameV2 example_codec (cn_SetResourceID example_cluster_name 0)"
    "load (snd (MarshalClusterName example_codec [example_cluster_name] (ClusterNameV2_ptr 0) [])) 0
        = Some example_cluster_name"
    by blast+
  from ca cn rid pre show ?thesis
    by (simp add: CollectOptions_examples example_stores example_decode)
qed

text \<open>
  C6. Let \<open>ca\<close> be a validated CA (validation accepts it and leaves it as it is) of
  version \<open>V2\<close>, and let the JSON functions encode it to a buffer from which they
  decode it again, header included. Then \<open>MarshalCertAuthority\<close> with
  \<open>PreserveResourceID\<close> returns that buffer, and \<open>UnmarshalCertAuthority\<close> without
  options returns \<open>ca\<close> from it, equal in every field, the resource ID included.
\<close>

theorem Marshal_Unmarshal_roundtrip:
  assumes valid: "ValidateCertAuthority env ca = Inr ca"
    and at: "load st p = Some ca"
    and ver: "GetVersion ca = V2"
    and enc: "FastMarshal_CertAuthorityV2 js ca = Inr bs"
    and dec: "FastUnmarshal_CertAuthorityV2 js bs = Inr ca"
    and hdr: "FastUnmarshal_ResourceHeader js bs = Inr (header_of ca)"
  shows "fst (MarshalCertAuthority js st (CertAuthorityV2_ptr p) [PreserveResourceID]) = Inr bs
       \<and> UnmarshalCertAuthority env js bs [] = Inr ca"
proof
  show "fst (MarshalCertAuthority js st (CertAuthorityV2_ptr p) [PreserveResourceID]) = Inr bs"
    using at ver enc by (simp add: MarshalCertAuthority_def CollectOptions_examples)
  have "rh_Version (header_of ca) = V2"
    using ver by (simp add: header_of_def GetVersion_def)
  then show "UnmarshalCertAuthority env js bs [] = Inr ca"
    using valid dec hdr by (simp add: UnmarshalCertAuthority_def CollectOptions_examples)
qed

theorem Marshal_Unmarshal_roundtrip_witness:
  "ValidateCertAuthority example_deps example_host_ca = Inr example_host_ca
   \<and> load [example_host_ca] 0 = Some example_host_ca
   \<and> GetVersion example_host_ca = V2
   \<and> GetResourceID example_host_ca = 7
   \<and> FastMarshal_CertAuthorityV2 example_codec example_host_ca = Inr example_ca_bytes
   \<and> FastUnmarshal_CertAuthorityV2 example_codec example_ca_bytes = Inr example_host_ca
   \<and> FastUnmarshal_ResourceHeader example_codec example_ca_bytes = Inr (header_of example_host_ca)
   \<and> fst (MarshalCertAuthority example_codec [example_host_ca] (CertAuthorityV2_ptr 0)
            [PreserveResourceID]) = Inr example_ca_bytes
   \<and> UnmarshalCertAuthority example_deps example_codec example_ca_bytes [] = Inr example_host_ca"
proof -
  have rid: "GetResourceID example_host_ca = 7"
    by (simp add: GetResourceID_def example_host_ca_def)
  from Marshal_Unmarshal_roundtrip
         [OF example_host_ca_valid example_stores(1) example_stores(3)
             example_decode(4) example_decode(2) example_decode(1)]
  show ?thesis
    by (simp add: example_host_ca_valid example_stores example_decode rid)
qed

end
